theory Spec2Isabelle
  imports Main "HOL-Library.AList"
begin

section \<open>JavaScript values\<close>

text \<open>
  The job in \<^verbatim>\<open>src/app/jobs/fetchPackageExtra.js\<close> handles parsed JSON documents and
  relies on JavaScript's truthiness (\<^verbatim>\<open>||\<close>, \<^verbatim>\<open>&&\<close>, \<^verbatim>\<open>if (unity)\<close>), on member access
  raising a TypeError on \<^verbatim>\<open>undefined\<close> and \<^verbatim>\<open>null\<close>, and on \<^verbatim>\<open>+=\<close>. Numbers are the
  integers the job handles (star counts, epoch milliseconds) together with NaN; an
  object is the list of its own properties, looked up by name. Arrays, fractional
  numbers and properties inherited from prototypes are outside the model.
\<close>

datatype jsval =
    JUndefined
  | JNull
  | JBool bool
  | JNum int
  | JNaN
  | JStr string
  | JObj "(string \<times> jsval) list"

datatype js_error =
    TypeError
  | HttpError "nat option"  \<comment> \<open>a rejected request; the status of \<^verbatim>\<open>error.response\<close> if there is one\<close>
  | StoreError
  | IOError

fun truthy :: "jsval \<Rightarrow> bool" where
  "truthy JUndefined = False"
| "truthy JNull = False"
| "truthy (JBool b) = b"
| "truthy (JNum n) = (n \<noteq> 0)"
| "truthy JNaN = False"
| "truthy (JStr s) = (s \<noteq> [])"
| "truthy (JObj kvs) = True"

text \<open>\<^verbatim>\<open>a || b\<close> on values already evaluated.\<close>

definition js_or :: "jsval \<Rightarrow> jsval \<Rightarrow> jsval" where
  "js_or a b = (if truthy a then a else b)"

text \<open>\<^verbatim>\<open>o.name\<close> and \<^verbatim>\<open>o[name]\<close>: a TypeError on \<^verbatim>\<open>undefined\<close> and \<^verbatim>\<open>null\<close>, the own
  property of an object or \<^verbatim>\<open>undefined\<close>, and \<^verbatim>\<open>undefined\<close> on the other primitives.\<close>

fun js_member :: "jsval \<Rightarrow> string \<Rightarrow> js_error + jsval" where
  "js_member JUndefined k = Inl TypeError"
| "js_member JNull k = Inl TypeError"
| "js_member (JObj kvs) k = Inr (case map_of kvs k of None \<Rightarrow> JUndefined | Some v \<Rightarrow> v)"
| "js_member v k = Inr JUndefined"

fun show_nat :: "nat \<Rightarrow> string" where
  "show_nat n =
     (if n < 10 then [char_of (48 + n)]
      else show_nat (n div 10) @ [char_of (48 + n mod 10)])"

declare show_nat.simps [simp del]

definition show_int :: "int \<Rightarrow> string" where
  "show_int i = (if i < 0 then CHR ''-'' # show_nat (nat (- i)) else show_nat (nat i))"

text \<open>ToString, used for a computed property key and by \<^verbatim>\<open>+\<close> on a string operand.\<close>

fun js_to_string :: "jsval \<Rightarrow> string" where
  "js_to_string JUndefined = ''undefined''"
| "js_to_string JNull = ''null''"
| "js_to_string (JBool b) = (if b then ''true'' else ''false'')"
| "js_to_string (JNum n) = show_int n"
| "js_to_string JNaN = ''NaN''"
| "js_to_string (JStr s) = s"
| "js_to_string (JObj kvs) = ''[object Object]''"

text \<open>ToNumber on the primitives that are not strings; \<open>None\<close> is NaN.\<close>

fun js_to_number :: "jsval \<Rightarrow> int option" where
  "js_to_number JNull = Some 0"
| "js_to_number (JBool b) = Some (if b then 1 else 0)"
| "js_to_number (JNum n) = Some n"
| "js_to_number v = None"

fun is_stringish :: "jsval \<Rightarrow> bool" where
  "is_stringish (JStr s) = True"
| "is_stringish (JObj kvs) = True"
| "is_stringish v = False"

text \<open>\<^verbatim>\<open>a + b\<close>: concatenation as soon as one operand is a string (an object converts to
  one), addition of numbers otherwise.\<close>

definition js_add :: "jsval \<Rightarrow> jsval \<Rightarrow> jsval" where
  "js_add a b =
     (if is_stringish a \<or> is_stringish b then JStr (js_to_string a @ js_to_string b)
      else case (js_to_number a, js_to_number b) of
             (Some x, Some y) \<Rightarrow> JNum (x + y)
           | _ \<Rightarrow> JNaN)"

text \<open>Sequencing of steps that may throw: the first error ends the \<^verbatim>\<open>try\<close> block.\<close>

definition and_then :: "js_error + 'a \<Rightarrow> ('a \<Rightarrow> js_error + 'b) \<Rightarrow> js_error + 'b" where
  "and_then r f = (case r of Inl e \<Rightarrow> Inl e | Inr x \<Rightarrow> f x)"

section \<open>Collaborators and state\<close>

datatype field = Stars | Unity | ImageUrl | UpdatedTime | Readme

datatype store_op = OpGet field string | OpSet field string | OpSetAggregated

record pkg =
  repo :: string
  parentRepo :: "string option"

record request =
  url :: string
  headers :: "(string \<times> string) list"

text \<open>The record built per package by \<^verbatim>\<open>aggregateExtraData\<close>.\<close>

record agg_data =
  stars :: jsval
  unity :: jsval
  imageUrl :: jsval
  time :: jsval

text \<open>
  Everything the job imports is a parameter: the enumerator of
  \<^verbatim>\<open>../utils/package\<close> (\<^verbatim>\<open>loadPackageNames\<close>, \<^verbatim>\<open>packageExists\<close>, \<^verbatim>\<open>loadPackage\<close>, which
  may reject or yield no descriptor), the configured token, \<^verbatim>\<open>url-join\<close>, the answer of
  the HTTP client to a request (the response body, or the error), the \<^verbatim>\<open>content\<close>
  attribute cheerio finds for \<^verbatim>\<open>meta[property='og:image']\<close> (\<open>None\<close> is
  \<^verbatim>\<open>undefined\<close>), the date parser behind \<^verbatim>\<open>new Date(string)\<close> (\<open>None\<close> is an invalid
  date), and which store operations fail. They are fixed during a run.
\<close>

record env =
  loadPackageNames :: "js_error + string list"
  packageExists :: "string \<Rightarrow> bool"
  loadPackage :: "string \<Rightarrow> js_error + pkg option"
  gitHub_token :: "string option"
  urljoin :: "string list \<Rightarrow> string"
  http_get :: "request \<Rightarrow> js_error + jsval"
  cheerio_og_image :: "jsval \<Rightarrow> js_error + string option"
  date_parse :: "string \<Rightarrow> int option"
  store_error :: "store_op \<Rightarrow> js_error option"

text \<open>What an observer sees: log lines, requests sent and store writes performed.\<close>

datatype event =
    LoggerInfo string
  | LoggerErrorPkg string string  \<comment> \<open>\<^verbatim>\<open>logger.error({ pkg }, message)\<close>\<close>
  | LoggerError js_error
  | ConsoleError js_error
  | HttpGet request
  | StoreSet field string jsval
  | StoreSetAggregated "(string \<times> agg_data) list"

record world =
  tbl :: "field \<times> string \<Rightarrow> jsval option"
  aggregated :: "(string \<times> agg_data) list"
  events :: "event list"

definition emit :: "event \<Rightarrow> world \<Rightarrow> world" where
  "emit ev s = s\<lparr>events := events s @ [ev]\<rparr>"

text \<open>
  The store of \<^verbatim>\<open>../models/packageExtra\<close> is not among the sources. Section 6 of the
  specification gives it as per-field \<^verbatim>\<open>get(fieldKind, packageId) -> value|absent\<close> and
  \<^verbatim>\<open>set(fieldKind, packageId, value)\<close> and a bulk \<^verbatim>\<open>setAggregated(mapping)\<close> that replaces
  the whole aggregated collection; section 5 makes each write atomic.
\<close>

text \<open>Modelled from the spec: the getters of the missing \<^verbatim>\<open>packageExtra\<close> model
  (\<^verbatim>\<open>getStars\<close>, \<^verbatim>\<open>getUnityVersion\<close>, \<^verbatim>\<open>getImageUrl\<close>, \<^verbatim>\<open>getUpdatedTime\<close>). The value
  stored for the field and package, \<^verbatim>\<open>undefined\<close> when absent, or a rejection.\<close>

definition store_get :: "env \<Rightarrow> field \<Rightarrow> string \<Rightarrow> world \<Rightarrow> js_error + jsval" where
  "store_get env f packageName s =
     (case store_error env (OpGet f packageName) of
        Some e \<Rightarrow> Inl e
      | None \<Rightarrow> Inr (case tbl s (f, packageName) of None \<Rightarrow> JUndefined | Some v \<Rightarrow> v))"

text \<open>Modelled from the spec: the setters of the missing \<^verbatim>\<open>packageExtra\<close> model
  (\<^verbatim>\<open>setStars\<close>, \<^verbatim>\<open>setUnityVersion\<close>, \<^verbatim>\<open>setImageUrl\<close>, \<^verbatim>\<open>setUpdatedTime\<close>,
  \<^verbatim>\<open>setReadme\<close>). The write overwrites the one field of the one package; a write that
  rejects changes nothing.\<close>

definition store_set :: "env \<Rightarrow> field \<Rightarrow> string \<Rightarrow> jsval \<Rightarrow> world \<Rightarrow> js_error + world" where
  "store_set env f packageName v s =
     (case store_error env (OpSet f packageName) of
        Some e \<Rightarrow> Inl e
      | None \<Rightarrow> Inr (emit (StoreSet f packageName v)
                      (s\<lparr>tbl := (tbl s)((f, packageName) \<mapsto> v)\<rparr>)))"

text \<open>Modelled from the spec: \<^verbatim>\<open>setAggregatedExtraData\<close> of the missing
  \<^verbatim>\<open>packageExtra\<close> model, the bulk write that replaces the whole aggregated mapping, or
  rejects and changes nothing.\<close>

definition setAggregatedExtraData ::
  "env \<Rightarrow> (string \<times> agg_data) list \<Rightarrow> world \<Rightarrow> js_error + world" where
  "setAggregatedExtraData env aggData s =
     (case store_error env OpSetAggregated of
        Some e \<Rightarrow> Inl e
      | None \<Rightarrow> Inr (emit (StoreSetAggregated aggData) (s\<lparr>aggregated := aggData\<rparr>)))"

section \<open>The field fetchers\<close>

text \<open>The fetchers keep the names of the source without the leading underscore. Each one
  is its \<^verbatim>\<open>try\<close> block followed by its \<^verbatim>\<open>catch\<close>: the request is recorded, then the first
  step that throws hands its error to the handler.\<close>

text \<open>\<^verbatim>\<open>error.response && error.response.status == 404\<close>\<close>

fun is404 :: "js_error \<Rightarrow> bool" where
  "is404 (HttpError (Some status)) = (status = 404)"
| "is404 e = False"

text \<open>\<^verbatim>\<open>if (config.gitHub.token) headers.authorization = `Bearer ${config.gitHub.token}`\<close>\<close>

definition github_headers :: "env \<Rightarrow> string \<Rightarrow> (string \<times> string) list" where
  "github_headers env accept =
     (''Accept'', accept) #
     (case gitHub_token env of
        Some token \<Rightarrow> if token \<noteq> [] then [(''authorization'', ''Bearer '' @ token)] else []
      | None \<Rightarrow> [])"

subsection \<open>\<^verbatim>\<open>_fetchUnityVersion\<close>\<close>

definition unity_request :: "env \<Rightarrow> string \<Rightarrow> request" where
  "unity_request env packageName =
     \<lparr>url = urljoin env [''https://package.openupm.com'', packageName],
      headers = [(''Accept'', ''application/json'')]\<rparr>"

text \<open>Lines 53 to 56: \<^verbatim>\<open>pkgInfo["dist-tags"].latest\<close>, \<^verbatim>\<open>pkgInfo.versions[version]\<close>,
  \<^verbatim>\<open>versionInfo.unity\<close>.\<close>

definition unity_of :: "jsval \<Rightarrow> js_error + jsval" where
  "unity_of pkgInfo =
     and_then (js_member pkgInfo ''dist-tags'') (\<lambda>distTags.
     and_then (js_member distTags ''latest'') (\<lambda>version.
     and_then (js_member pkgInfo ''versions'') (\<lambda>versions.
     and_then (js_member versions (js_to_string version)) (\<lambda>versionInfo.
     js_member versionInfo ''unity''))))"

definition unity_catch :: "js_error \<Rightarrow> world \<Rightarrow> world" where
  "unity_catch error s = (if \<not> is404 error then emit (LoggerError error) s else s)"

definition fetchUnityVersion :: "env \<Rightarrow> string \<Rightarrow> world \<Rightarrow> world" where
  "fetchUnityVersion env packageName s =
     (let s1 = emit (HttpGet (unity_request env packageName)) s in
      case http_get env (unity_request env packageName) of
        Inl error \<Rightarrow> unity_catch error s1
      | Inr pkgInfo \<Rightarrow>
          (case unity_of pkgInfo of
             Inl error \<Rightarrow> unity_catch error s1
           | Inr unityV \<Rightarrow>
               if truthy unityV then
                 (case store_set env Unity packageName unityV s1 of
                    Inl error \<Rightarrow> unity_catch error s1
                  | Inr s2 \<Rightarrow> s2)
               else s1))"

subsection \<open>\<^verbatim>\<open>_fetchStars\<close>\<close>

definition stars_request :: "env \<Rightarrow> string \<Rightarrow> request" where
  "stars_request env repoName =
     \<lparr>url = urljoin env [''https://api.github.com/repos/'', repoName],
      headers = github_headers env ''application/vnd.github.v3.json''\<rparr>"

text \<open>Lines 78 to 80: \<^verbatim>\<open>stars = 0\<close>, then two \<^verbatim>\<open>+=\<close>; \<^verbatim>\<open>&&\<close> reads the parent's count only
  when the parent is truthy.\<close>

definition stars_of :: "jsval \<Rightarrow> js_error + jsval" where
  "stars_of repoInfo =
     and_then (js_member repoInfo ''stargazers_count'') (\<lambda>own.
     and_then (js_member repoInfo ''parent'') (\<lambda>parent.
     and_then (if truthy parent then js_member parent ''stargazers_count'' else Inr parent)
       (\<lambda>parentCount.
     Inr (js_add (js_add (JNum 0) (js_or own (JNum 0))) (js_or parentCount (JNum 0))))))"

definition fetchStars :: "env \<Rightarrow> string \<Rightarrow> string \<Rightarrow> world \<Rightarrow> world" where
  "fetchStars env repoName packageName s =
     (let s1 = emit (HttpGet (stars_request env repoName)) s in
      case http_get env (stars_request env repoName) of
        Inl error \<Rightarrow> emit (ConsoleError error) s1
      | Inr repoInfo \<Rightarrow>
          (case stars_of repoInfo of
             Inl error \<Rightarrow> emit (ConsoleError error) s1
           | Inr starsV \<Rightarrow>
               (case store_set env Stars packageName starsV s1 of
                  Inl error \<Rightarrow> emit (ConsoleError error) s1
                | Inr s2 \<Rightarrow> s2)))"

subsection \<open>\<^verbatim>\<open>_fetchOGImage\<close>\<close>

definition og_request :: "env \<Rightarrow> string \<Rightarrow> request" where
  "og_request env repoName =
     \<lparr>url = urljoin env [''https://github.com/'', repoName], headers = []\<rparr>"

text \<open>\<^verbatim>\<open>/^https:\/\/avatar/.test(ogImageUrl)\<close>; \<^verbatim>\<open>undefined\<close> is tested as the string
  \<^verbatim>\<open>"undefined"\<close>, which does not match.\<close>

definition is_avatar :: "string option \<Rightarrow> bool" where
  "is_avatar ogImageUrl =
     (case ogImageUrl of
        None \<Rightarrow> False
      | Some u \<Rightarrow> take (length ''https://avatar'') u = ''https://avatar'')"

text \<open>The helper \<^verbatim>\<open>_fetchOGImageForRepo\<close>: the image URL, \<open>None\<close> for \<^verbatim>\<open>undefined\<close>.\<close>

definition fetchOGImageForRepo :: "env \<Rightarrow> string \<Rightarrow> world \<Rightarrow> string option \<times> world" where
  "fetchOGImageForRepo env repoName s =
     (let s1 = emit (HttpGet (og_request env repoName)) s in
      case http_get env (og_request env repoName) of
        Inl error \<Rightarrow> (Some '''', emit (ConsoleError error) s1)
      | Inr text \<Rightarrow>
          (case cheerio_og_image env text of
             Inl error \<Rightarrow> (Some '''', emit (ConsoleError error) s1)
           | Inr ogImageUrl \<Rightarrow>
               (if is_avatar ogImageUrl then Some '''' else ogImageUrl, s1)))"

text \<open>\<^verbatim>\<open>!imageUrl\<close> and \<^verbatim>\<open>pkg.parentRepo\<close> as conditions.\<close>

definition no_image :: "string option \<Rightarrow> bool" where
  "no_image url1 = (case url1 of None \<Rightarrow> True | Some u \<Rightarrow> u = [])"

definition image_value :: "string option \<Rightarrow> jsval" where
  "image_value url1 = (case url1 of None \<Rightarrow> JUndefined | Some u \<Rightarrow> JStr u)"

definition fetchOGImage :: "env \<Rightarrow> pkg \<Rightarrow> string \<Rightarrow> world \<Rightarrow> world" where
  "fetchOGImage env p packageName s =
     (let (url1, s1) = fetchOGImageForRepo env (repo p) s;
          (url2, s2) =
            (case parentRepo p of
               Some parent \<Rightarrow>
                 if no_image url1 \<and> parent \<noteq> [] then fetchOGImageForRepo env parent s1
                 else (url1, s1)
             | None \<Rightarrow> (url1, s1))
      in case store_set env ImageUrl packageName (image_value url2) s2 of
           Inl error \<Rightarrow> emit (ConsoleError error) s2
         | Inr s3 \<Rightarrow> s3)"

subsection \<open>\<^verbatim>\<open>_fetchReadme\<close>\<close>

definition readme_request :: "env \<Rightarrow> string \<Rightarrow> request" where
  "readme_request env repoName =
     \<lparr>url = urljoin env [''https://api.github.com/repos/'', repoName, ''readme''],
      headers = github_headers env ''application/vnd.github.v3.raw''\<rparr>"

definition fetchReadme :: "env \<Rightarrow> string \<Rightarrow> string \<Rightarrow> world \<Rightarrow> world" where
  "fetchReadme env repoName packageName s =
     (let s1 = emit (HttpGet (readme_request env repoName)) s in
      case http_get env (readme_request env repoName) of
        Inl error \<Rightarrow> emit (ConsoleError error) s1
      | Inr text \<Rightarrow>
          (case store_set env Readme packageName text s1 of
             Inl error \<Rightarrow> emit (ConsoleError error) s1
           | Inr s2 \<Rightarrow> s2))"

subsection \<open>\<^verbatim>\<open>_fetchUpdatedTime\<close>\<close>

definition time_request :: "env \<Rightarrow> string \<Rightarrow> request" where
  "time_request env packageName =
     \<lparr>url = urljoin env [''https://package.openupm.com/'', packageName],
      headers = [(''Accept'', ''application/json'')]\<rparr>"

text \<open>\<^verbatim>\<open>new Date(v).getTime()\<close>: a string goes through the date parser, a number is the
  time value itself when it is in the range of dates, anything else is converted to a
  number first.\<close>

definition date_getTime :: "env \<Rightarrow> jsval \<Rightarrow> jsval" where
  "date_getTime env v =
     (if is_stringish v then
        (case date_parse env (js_to_string v) of None \<Rightarrow> JNaN | Some ms \<Rightarrow> JNum ms)
      else case js_to_number v of
             None \<Rightarrow> JNaN
           | Some ms \<Rightarrow> if \<bar>ms\<bar> \<le> 8640000000000000 then JNum ms else JNaN)"

text \<open>Lines 156 to 158 up to the stamp looked up, \<^verbatim>\<open>(data.time || {})[version]\<close>.\<close>

definition time_stamp :: "jsval \<Rightarrow> js_error + jsval" where
  "time_stamp respData =
     (let data = js_or respData (JObj []) in
      and_then (js_member data ''dist-tags'') (\<lambda>distTags.
      and_then (js_member (js_or distTags (JObj [])) ''latest'') (\<lambda>version.
      and_then (js_member data ''time'') (\<lambda>times.
      js_member (js_or times (JObj [])) (js_to_string version)))))"

text \<open>Lines 158 and 159: \<^verbatim>\<open>timeStr = stamp || 0\<close> and \<^verbatim>\<open>new Date(timeStr).getTime()\<close>.\<close>

definition time_of :: "env \<Rightarrow> jsval \<Rightarrow> js_error + jsval" where
  "time_of env respData =
     and_then (time_stamp respData) (\<lambda>stamp.
     Inr (date_getTime env (js_or stamp (JNum 0))))"

definition fetchUpdatedTime :: "env \<Rightarrow> string \<Rightarrow> world \<Rightarrow> world" where
  "fetchUpdatedTime env packageName s =
     (let s1 = emit (HttpGet (time_request env packageName)) s in
      case http_get env (time_request env packageName) of
        Inl error \<Rightarrow> emit (ConsoleError error) s1
      | Inr respData \<Rightarrow>
          (case time_of env respData of
             Inl error \<Rightarrow> emit (ConsoleError error) s1
           | Inr t \<Rightarrow>
               (case store_set env UpdatedTime packageName t s1 of
                  Inl error \<Rightarrow> emit (ConsoleError error) s1
                | Inr s2 \<Rightarrow> s2)))"

section \<open>\<^verbatim>\<open>fetchExtraData\<close>\<close>

text \<open>
  The body of the \<^verbatim>\<open>for\<close> loop. \<^verbatim>\<open>loadPackage\<close> is awaited outside any \<^verbatim>\<open>try\<close>, and
  \<^verbatim>\<open>pkg.repo\<close> is first read on line 34, after the two registry fetchers have run: a
  rejection or a missing descriptor leaves the loop as an exception.
\<close>

fun fetch_loop :: "env \<Rightarrow> string list \<Rightarrow> world \<Rightarrow> (js_error + unit) \<times> world" where
  "fetch_loop env [] s = (Inr (), s)"
| "fetch_loop env (packageName # rest) s =
     (if \<not> packageExists env packageName then
        fetch_loop env rest (emit (LoggerErrorPkg packageName ''package doesn't exist'') s)
      else
        case loadPackage env packageName of
          Inl error \<Rightarrow> (Inl error, s)
        | Inr descriptor \<Rightarrow>
            (let s1 = fetchUpdatedTime env packageName s;
                 s2 = fetchUnityVersion env packageName s1
             in case descriptor of
                  None \<Rightarrow> (Inl TypeError, s2)
                | Some p \<Rightarrow>
                    (let s3 = fetchStars env (repo p) packageName s2;
                         s4 = fetchOGImage env p packageName s3;
                         s5 = fetchReadme env (repo p) packageName s4
                     in fetch_loop env rest s5)))"

text \<open>\<open>None\<close> is a \<^verbatim>\<open>null\<close> or \<^verbatim>\<open>undefined\<close> argument, replaced by the empty list.\<close>

definition fetchExtraData :: "env \<Rightarrow> string list option \<Rightarrow> world \<Rightarrow> (js_error + unit) \<times> world" where
  "fetchExtraData env packageNames s =
     fetch_loop env (case packageNames of None \<Rightarrow> [] | Some names \<Rightarrow> names)
       (emit (LoggerInfo ''fetchExtraData'') s)"

section \<open>\<^verbatim>\<open>aggregateExtraData\<close>\<close>

text \<open>Lines 179 to 187: the four reads, each of which may reject, and the defaults.\<close>

definition build_data :: "env \<Rightarrow> string \<Rightarrow> world \<Rightarrow> js_error + agg_data" where
  "build_data env packageName s =
     and_then (store_get env Stars packageName s) (\<lambda>starsV.
     and_then (store_get env Unity packageName s) (\<lambda>unityV.
     and_then (store_get env ImageUrl packageName s) (\<lambda>imageUrlV.
     and_then (store_get env UpdatedTime packageName s) (\<lambda>updatedTimeV.
     Inr \<lparr>stars = js_or starsV (JNum 0),
          unity = js_or unityV (JStr ''2018.1''),
          imageUrl = js_or imageUrlV JUndefined,
          time = js_or updatedTimeV JUndefined\<rparr>))))"

text \<open>The loop; \<^verbatim>\<open>aggData[packageName] = data\<close> replaces the entry of a name already
  there and appends a new one otherwise.\<close>

fun aggregate_loop ::
  "env \<Rightarrow> string list \<Rightarrow> (string \<times> agg_data) list \<Rightarrow> world
     \<Rightarrow> (js_error + (string \<times> agg_data) list) \<times> world" where
  "aggregate_loop env [] aggData s = (Inr aggData, s)"
| "aggregate_loop env (packageName # rest) aggData s =
     (if \<not> packageExists env packageName then
        aggregate_loop env rest aggData
          (emit (LoggerErrorPkg packageName ''package doesn't exist'') s)
      else
        (case build_data env packageName s of
           Inl error \<Rightarrow> (Inl error, s)
         | Inr data \<Rightarrow> aggregate_loop env rest (AList.update packageName data aggData) s))"

definition aggregateExtraData :: "env \<Rightarrow> world \<Rightarrow> (js_error + unit) \<times> world" where
  "aggregateExtraData env s =
     (let s1 = emit (LoggerInfo ''aggregateExtraData'') s in
      case loadPackageNames env of
        Inl error \<Rightarrow> (Inl error, s1)
      | Inr packageNames \<Rightarrow>
          (case aggregate_loop env packageNames [] s1 of
             (Inl error, s2) \<Rightarrow> (Inl error, s2)
           | (Inr aggData, s2) \<Rightarrow>
               (case setAggregatedExtraData env aggData s2 of
                  Inl error \<Rightarrow> (Inl error, s2)
                | Inr s3 \<Rightarrow> (Inr (), s3))))"

section \<open>Vocabulary of the properties\<close>

text \<open>Log lines (of the logger and of the console) and store writes among the events.\<close>

fun is_log :: "event \<Rightarrow> bool" where
  "is_log (LoggerInfo m) = True"
| "is_log (LoggerErrorPkg n m) = True"
| "is_log (LoggerError e) = True"
| "is_log (ConsoleError e) = True"
| "is_log ev = False"

fun is_write :: "event \<Rightarrow> bool" where
  "is_write (StoreSet f n v) = True"
| "is_write (StoreSetAggregated m) = True"
| "is_write ev = False"

text \<open>The five fetchers for one package, in the order of lines 32 to 36.\<close>

definition run_fetchers :: "env \<Rightarrow> pkg \<Rightarrow> string \<Rightarrow> world \<Rightarrow> world" where
  "run_fetchers env p packageName s =
     fetchReadme env (repo p) packageName
       (fetchOGImage env p packageName
          (fetchStars env (repo p) packageName
             (fetchUnityVersion env packageName
                (fetchUpdatedTime env packageName s))))"

text \<open>What section 4.2 of the specification asks for one identifier: the log line when the
  existence check fails, the five fetchers on the loaded descriptor otherwise. (Without a
  descriptor there is nothing to attempt; the properties below say when that happens.)\<close>

definition attempt :: "env \<Rightarrow> string \<Rightarrow> world \<Rightarrow> world" where
  "attempt env packageName s =
     (if \<not> packageExists env packageName then
        emit (LoggerErrorPkg packageName ''package doesn't exist'') s
      else case loadPackage env packageName of
             Inr (Some p) \<Rightarrow> run_fetchers env p packageName s
           | _ \<Rightarrow> s)"

text \<open>A step whose writes and events do not depend on the state it starts from: it
  overwrites some fields and appends some events, the same ones from every state.\<close>

definition effect :: "(world \<Rightarrow> world) \<Rightarrow> bool" where
  "effect F \<longleftrightarrow> (\<exists>w evs. \<forall>s. F s = s\<lparr>tbl := tbl s ++ w, events := events s @ evs\<rparr>)"

text \<open>The value \<^verbatim>\<open>_fetchOGImageForRepo\<close> returns, which does not depend on the state.\<close>

definition og_image_for :: "env \<Rightarrow> string \<Rightarrow> string option" where
  "og_image_for env repoName =
     (case http_get env (og_request env repoName) of
        Inl error \<Rightarrow> Some ''''
      | Inr text \<Rightarrow>
          (case cheerio_og_image env text of
             Inl error \<Rightarrow> Some ''''
           | Inr ogImageUrl \<Rightarrow> if is_avatar ogImageUrl then Some '''' else ogImageUrl))"

text \<open>The value \<^verbatim>\<open>_fetchOGImage\<close> hands to \<^verbatim>\<open>setImageUrl\<close>, and the state it has reached
  by then.\<close>

definition og_final :: "env \<Rightarrow> pkg \<Rightarrow> string option" where
  "og_final env p =
     (case parentRepo p of
        Some parent \<Rightarrow>
          if no_image (og_image_for env (repo p)) \<and> parent \<noteq> [] then og_image_for env parent
          else og_image_for env (repo p)
      | None \<Rightarrow> og_image_for env (repo p))"

definition og_world :: "env \<Rightarrow> pkg \<Rightarrow> world \<Rightarrow> world" where
  "og_world env p s =
     (case parentRepo p of
        Some parent \<Rightarrow>
          if no_image (og_image_for env (repo p)) \<and> parent \<noteq> []
          then snd (fetchOGImageForRepo env parent (snd (fetchOGImageForRepo env (repo p) s)))
          else snd (fetchOGImageForRepo env (repo p) s)
      | None \<Rightarrow> snd (fetchOGImageForRepo env (repo p) s))"

text \<open>What a getter answers from a table, and the record of defaults built from it.\<close>

definition stored :: "(field \<times> string \<Rightarrow> jsval option) \<Rightarrow> field \<Rightarrow> string \<Rightarrow> jsval" where
  "stored t f packageName = (case t (f, packageName) of None \<Rightarrow> JUndefined | Some v \<Rightarrow> v)"

definition defaulted :: "(field \<times> string \<Rightarrow> jsval option) \<Rightarrow> string \<Rightarrow> agg_data" where
  "defaulted t packageName =
     \<lparr>stars = js_or (stored t Stars packageName) (JNum 0),
      unity = js_or (stored t Unity packageName) (JStr ''2018.1''),
      imageUrl = js_or (stored t ImageUrl packageName) JUndefined,
      time = js_or (stored t UpdatedTime packageName) JUndefined\<rparr>"

text \<open>The mapping with one defaulted record for every listed name that passes the existence
  check, added to \<open>aggData\<close> in the order of the listing.\<close>

definition complete_mapping ::
  "env \<Rightarrow> (field \<times> string \<Rightarrow> jsval option) \<Rightarrow> string list \<Rightarrow> (string \<times> agg_data) list
     \<Rightarrow> (string \<times> agg_data) list" where
  "complete_mapping env t packageNames aggData =
     foldl (\<lambda>acc n. AList.update n (defaulted t n) acc) aggData
       (filter (packageExists env) packageNames)"

text \<open>The log lines of the listed names that fail the existence check, in the order of the
  listing.\<close>

definition skipped_logs :: "env \<Rightarrow> string list \<Rightarrow> event list" where
  "skipped_logs env packageNames =
     map (\<lambda>n. LoggerErrorPkg n ''package doesn't exist'')
       (filter (\<lambda>n. \<not> packageExists env n) packageNames)"


section \<open>Example collaborators\<close>

text \<open>Joining with single slashes, enough for the URLs of the examples.\<close>

fun example_urljoin :: "string list \<Rightarrow> string" where
  "example_urljoin [] = []"
| "example_urljoin [x] = x"
| "example_urljoin (x # y # ys) =
     (if x \<noteq> [] \<and> last x = CHR ''/'' then x @ example_urljoin (y # ys)
      else x @ ''/'' @ example_urljoin (y # ys))"

text \<open>Nothing is listed, every request is answered 404, the store works.\<close>

definition offline :: env where
  "offline =
     \<lparr>loadPackageNames = Inr [],
      packageExists = (\<lambda>n. False),
      loadPackage = (\<lambda>n. Inr None),
      gitHub_token = None,
      urljoin = example_urljoin,
      http_get = (\<lambda>rq. Inl (HttpError (Some 404))),
      cheerio_og_image = (\<lambda>page. Inr None),
      date_parse = (\<lambda>x. None),
      store_error = (\<lambda>op. None)\<rparr>"

text \<open>Every request is answered with the document \<open>doc\<close>.\<close>

definition answering :: "jsval \<Rightarrow> env" where
  "answering doc = offline\<lparr>http_get := (\<lambda>rq. Inr doc)\<rparr>"


definition foo_bar :: pkg where
  "foo_bar = \<lparr>repo = ''foo/bar'', parentRepo = None\<rparr>"

text \<open>The scenario of section 8: \<^verbatim>\<open>com.foo.bar\<close> is the repo \<^verbatim>\<open>foo/bar\<close> with 42 stars and no
  parent; the registry does not know the package. The listing also has a name whose
  existence check fails.\<close>

definition catalog :: env where
  "catalog =
     offline
       \<lparr>loadPackageNames := Inr [''com.foo.bar'', ''com.gone''],
        packageExists := (\<lambda>n. n = ''com.foo.bar''),
        loadPackage := (\<lambda>n. Inr (Some foo_bar)),
        http_get := (\<lambda>rq.
          if url rq = ''https://api.github.com/repos/foo/bar''
          then Inr (JObj [(''stargazers_count'', JNum 42)])
          else Inl (HttpError (Some 404)))\<rparr>"



text \<open>The listing has one name, and its existence check fails.\<close>

definition stale_listing :: env where
  "stale_listing = offline\<lparr>loadPackageNames := Inr [''com.foo.bar'']\<rparr>"

text \<open>The reads of the updated time fail.\<close>

definition broken_reads :: env where
  "broken_reads =
     catalog\<lparr>store_error := (\<lambda>op. if op = OpGet UpdatedTime ''com.foo.bar''
                                    then Some StoreError else None)\<rparr>"

text \<open>A fork whose own page shows the generated avatar and whose parent's page has a real
  card; the page served for a URL is stood for by the URL itself.\<close>

definition forked :: pkg where
  "forked = \<lparr>repo = ''me/fork'', parentRepo = Some ''up/stream''\<rparr>"

definition pages :: env where
  "pages =
     offline
       \<lparr>http_get := (\<lambda>rq. Inr (JStr (url rq))),
        cheerio_og_image := (\<lambda>page.
          if page = JStr ''https://github.com/me/fork''
          then Inr (Some ''https://avatars.githubusercontent.com/u/1?s=400'')
          else if page = JStr ''https://github.com/up/stream''
          then Inr (Some ''https://repository-images.githubusercontent.com/1/card.png'')
          else Inr None)\<rparr>"

text \<open>A registry document whose latest version has a publish stamp that is not a date.\<close>

definition odd_stamp :: jsval where
  "odd_stamp =
     JObj [(''dist-tags'', JObj [(''latest'', JStr ''1.0.0'')]),
           (''time'', JObj [(''1.0.0'', JStr ''yesterday'')])]"

definition empty_world :: world where
  "empty_world = \<lparr>tbl = Map.empty, aggregated = [], events = []\<rparr>"

text \<open>A store filled by an earlier run.\<close>

definition seeded_world :: world where
  "seeded_world =
     \<lparr>tbl = [(Unity, ''com.foo.bar'') \<mapsto> JStr ''2019.4'',
             (ImageUrl, ''com.foo.bar'') \<mapsto> JStr ''https://example.org/card.png'',
             (UpdatedTime, ''com.foo.bar'') \<mapsto> JNum 1600000000000],
      aggregated =
        [(''com.old'', \<lparr>stars = JNum 1, unity = JStr ''2018.1'', imageUrl = JUndefined,
                          time = JUndefined\<rparr>)],
      events = []\<rparr>"

text \<open>The same store with a star count from an earlier run.\<close>

definition starred_world :: world where
  "starred_world = seeded_world\<lparr>tbl := (tbl seeded_world)((Stars, ''com.foo.bar'') \<mapsto> JNum 42)\<rparr>"

text \<open>A registry document whose latest version declares no runtime version.\<close>

definition plain_release :: jsval where
  "plain_release =
     JObj [(''dist-tags'', JObj [(''latest'', JStr ''1.0.0'')]),
           (''versions'', JObj [(''1.0.0'', JObj [(''name'', JStr ''com.foo.bar'')])])]"

section \<open>Properties\<close>

subsection \<open>Every fetcher has the same effect from every state\<close>

lemma emit_sel [simp]:
  "tbl (emit ev s) = tbl s"
  "aggregated (emit ev s) = aggregated s"
  "events (emit ev s) = events s @ [ev]"
  by (simp_all add: emit_def)

lemma effect_id: "effect (\<lambda>s. s)"
  unfolding effect_def
  by (rule exI [of _ Map.empty], rule exI [of _ "[]"]) simp

lemma effect_emit: "effect (emit ev)"
  unfolding effect_def
  by (rule exI [of _ Map.empty], rule exI [of _ "[ev]"]) (simp add: emit_def)

lemma effect_comp:
  assumes "effect F" and "effect G"
  shows "effect (\<lambda>s. G (F s))"
proof -
  from assms(1) obtain w1 e1 where F: "\<And>s. F s = s\<lparr>tbl := tbl s ++ w1, events := events s @ e1\<rparr>"
    unfolding effect_def by blast
  from assms(2) obtain w2 e2 where G: "\<And>s. G s = s\<lparr>tbl := tbl s ++ w2, events := events s @ e2\<rparr>"
    unfolding effect_def by blast
  have "\<forall>s. G (F s) = s\<lparr>tbl := tbl s ++ (w1 ++ w2), events := events s @ (e1 @ e2)\<rparr>"
    by (simp add: F G)
  then show ?thesis unfolding effect_def by blast
qed

lemma effect_write: "effect (\<lambda>s. emit (StoreSet f n v) (s\<lparr>tbl := (tbl s)((f, n) \<mapsto> v)\<rparr>))"
  unfolding effect_def
  by (rule exI [of _ "[(f, n) \<mapsto> v]"], rule exI [of _ "[StoreSet f n v]"]) (simp add: emit_def)

lemma store_set_cases:
  obtains (fail) e where "store_error env (OpSet f n) = Some e" "\<And>v s. store_set env f n v s = Inl e"
  | (ok) "store_error env (OpSet f n) = None"
      "\<And>v s. store_set env f n v s = Inr (emit (StoreSet f n v) (s\<lparr>tbl := (tbl s)((f, n) \<mapsto> v)\<rparr>))"
  by (cases "store_error env (OpSet f n)") (auto simp: store_set_def)

lemma effect_emit_after: "effect F \<Longrightarrow> effect (\<lambda>s. emit ev (F s))"
  by (rule effect_comp [OF _ effect_emit])

lemma effect_write_after:
  "effect F \<Longrightarrow> effect (\<lambda>s. emit (StoreSet f n v) ((F s)\<lparr>tbl := (tbl (F s))((f, n) \<mapsto> v)\<rparr>))"
  by (rule effect_comp [OF _ effect_write])

lemma effect_sum:
  assumes "\<And>e. x = Inl e \<Longrightarrow> effect (A e)" and "\<And>v. x = Inr v \<Longrightarrow> effect (B v)"
  shows "effect (\<lambda>s. case x of Inl e \<Rightarrow> A e s | Inr v \<Rightarrow> B v s)"
  using assms by (cases x) simp_all

lemma effect_if:
  assumes "c \<Longrightarrow> effect A" and "\<not> c \<Longrightarrow> effect B"
  shows "effect (\<lambda>s. if c then A s else B s)"
  using assms by (cases c) simp_all

lemmas effect_intros =
  effect_sum effect_if effect_write_after effect_emit_after effect_id

lemma effect_fetchUnityVersion: "effect (fetchUnityVersion env n)"
proof (cases rule: store_set_cases [of env Unity n])
  case (fail e)
  show ?thesis
    unfolding fetchUnityVersion_def Let_def unity_catch_def fail(2) sum.case
    by (intro effect_intros)
next
  case ok
  show ?thesis
    unfolding fetchUnityVersion_def Let_def unity_catch_def ok(2) sum.case
    by (intro effect_intros)
qed

lemma effect_fetchStars: "effect (fetchStars env r n)"
proof (cases rule: store_set_cases [of env Stars n])
  case (fail e)
  show ?thesis
    unfolding fetchStars_def Let_def fail(2) sum.case
    by (intro effect_intros)
next
  case ok
  show ?thesis
    unfolding fetchStars_def Let_def ok(2) sum.case by (intro effect_intros)
qed

lemma effect_fetchReadme: "effect (fetchReadme env r n)"
proof (cases rule: store_set_cases [of env Readme n])
  case (fail e)
  show ?thesis
    unfolding fetchReadme_def Let_def fail(2) sum.case
    by (intro effect_intros)
next
  case ok
  show ?thesis
    unfolding fetchReadme_def Let_def ok(2) sum.case by (intro effect_intros)
qed

lemma effect_fetchUpdatedTime: "effect (fetchUpdatedTime env n)"
proof (cases rule: store_set_cases [of env UpdatedTime n])
  case (fail e)
  show ?thesis
    unfolding fetchUpdatedTime_def Let_def fail(2) sum.case
    by (intro effect_intros)
next
  case ok
  show ?thesis
    unfolding fetchUpdatedTime_def Let_def ok(2) sum.case by (intro effect_intros)
qed

lemma fst_fetchOGImageForRepo: "fst (fetchOGImageForRepo env r s) = og_image_for env r"
  by (simp add: fetchOGImageForRepo_def og_image_for_def Let_def split: sum.split)

lemma effect_fetchOGImageForRepo: "effect (\<lambda>s. snd (fetchOGImageForRepo env r s))"
proof -
  have "(\<lambda>s. snd (fetchOGImageForRepo env r s)) =
        (\<lambda>s. case http_get env (og_request env r) of
                Inl error \<Rightarrow> emit (ConsoleError error) (emit (HttpGet (og_request env r)) s)
              | Inr text \<Rightarrow>
                  (case cheerio_og_image env text of
                     Inl error \<Rightarrow> emit (ConsoleError error) (emit (HttpGet (og_request env r)) s)
                   | Inr u \<Rightarrow> emit (HttpGet (og_request env r)) s))"
    by (rule ext) (simp add: fetchOGImageForRepo_def Let_def split: sum.split)
  then show ?thesis
    by (simp only:) (intro effect_intros)
qed

lemma effect_after:
  "effect G \<Longrightarrow> effect F \<Longrightarrow> effect (\<lambda>s. G (F s))"
  by (rule effect_comp)

lemma fetchOGImage_unfold:
  "fetchOGImage env p n s =
     (case store_set env ImageUrl n (image_value (og_final env p)) (og_world env p s) of
        Inl error \<Rightarrow> emit (ConsoleError error) (og_world env p s)
      | Inr s3 \<Rightarrow> s3)"
proof (cases "parentRepo p")
  case None
  then show ?thesis
    by (simp add: fetchOGImage_def og_final_def og_world_def split_beta
          fst_fetchOGImageForRepo cong: sum.case_cong)
next
  case (Some parent)
  then show ?thesis
    by (cases "no_image (og_image_for env (repo p))"; cases "parent = []")
       (simp_all add: fetchOGImage_def og_final_def og_world_def split_beta
          fst_fetchOGImageForRepo cong: sum.case_cong)
qed

lemma effect_og_world: "effect (og_world env p)"
proof (cases "parentRepo p")
  case None
  then have "og_world env p = (\<lambda>s. snd (fetchOGImageForRepo env (repo p) s))"
    by (simp add: og_world_def fun_eq_iff)
  then show ?thesis
    by (simp add: effect_fetchOGImageForRepo)
next
  case (Some parent)
  show ?thesis
  proof (cases "no_image (og_image_for env (repo p)) \<and> parent \<noteq> []")
    case True
    with Some have "og_world env p =
        (\<lambda>s. snd (fetchOGImageForRepo env parent (snd (fetchOGImageForRepo env (repo p) s))))"
      by (simp add: og_world_def fun_eq_iff)
    then show ?thesis
      by (simp add: effect_after [OF effect_fetchOGImageForRepo effect_fetchOGImageForRepo])
  next
    case False
    with Some have "og_world env p = (\<lambda>s. snd (fetchOGImageForRepo env (repo p) s))"
      by (auto simp: og_world_def fun_eq_iff)
    then show ?thesis
      by (simp add: effect_fetchOGImageForRepo)
  qed
qed

lemma effect_fetchOGImage: "effect (fetchOGImage env p n)"
proof (cases rule: store_set_cases [of env ImageUrl n])
  case (fail e)
  have "fetchOGImage env p n = (\<lambda>s. emit (ConsoleError e) (og_world env p s))"
    by (rule ext) (simp add: fetchOGImage_unfold fail(2))
  then show ?thesis
    by (simp add: effect_emit_after effect_og_world)
next
  case ok
  have "fetchOGImage env p n =
        (\<lambda>s. emit (StoreSet ImageUrl n (image_value (og_final env p)))
               ((og_world env p s)\<lparr>tbl := (tbl (og_world env p s))
                  ((ImageUrl, n) \<mapsto> image_value (og_final env p))\<rparr>))"
    by (rule ext) (simp add: fetchOGImage_unfold ok(2))
  then show ?thesis
    by (simp add: effect_write_after effect_og_world)
qed

lemma effect_run_fetchers: "effect (run_fetchers env p n)"
proof -
  have eq: "run_fetchers env p n =
        (\<lambda>s. fetchReadme env (repo p) n
               (fetchOGImage env p n
                  (fetchStars env (repo p) n
                     (fetchUnityVersion env n (fetchUpdatedTime env n s)))))"
    by (rule ext) (simp add: run_fetchers_def)
  show ?thesis
    unfolding eq
    by (intro effect_after [OF effect_fetchReadme] effect_after [OF effect_fetchOGImage]
          effect_after [OF effect_fetchStars] effect_after [OF effect_fetchUnityVersion]
          effect_fetchUpdatedTime)
qed

lemma effect_fetch_loop: "effect (\<lambda>s. snd (fetch_loop env names s))"
proof (induction names)
  case Nil
  show ?case by (simp add: effect_id)
next
  case (Cons n rest)
  show ?case
  proof (cases "packageExists env n")
    case False
    then have "(\<lambda>s. snd (fetch_loop env (n # rest) s)) =
        (\<lambda>s. snd (fetch_loop env rest (emit (LoggerErrorPkg n ''package doesn't exist'') s)))"
      by (simp add: fun_eq_iff)
    then show ?thesis
      by (simp add: effect_after [OF Cons.IH effect_emit])
  next
    case True
    show ?thesis
    proof (cases "loadPackage env n")
      case (Inl e)
      with True have "(\<lambda>s. snd (fetch_loop env (n # rest) s)) = (\<lambda>s. s)"
        by (simp add: fun_eq_iff)
      then show ?thesis by (simp add: effect_id)
    next
      case (Inr d)
      show ?thesis
      proof (cases d)
        case None
        with True Inr have "(\<lambda>s. snd (fetch_loop env (n # rest) s)) =
            (\<lambda>s. fetchUnityVersion env n (fetchUpdatedTime env n s))"
          by (simp add: fun_eq_iff)
        then show ?thesis
          by (simp add: effect_after [OF effect_fetchUnityVersion effect_fetchUpdatedTime])
      next
        case (Some p)
        with True Inr have "(\<lambda>s. snd (fetch_loop env (n # rest) s)) =
            (\<lambda>s. snd (fetch_loop env rest (run_fetchers env p n s)))"
          by (simp add: fun_eq_iff run_fetchers_def)
        then show ?thesis
          by (simp add: effect_after [OF Cons.IH effect_run_fetchers])
      qed
    qed
  qed
qed

lemma effect_fetchExtraData: "effect (\<lambda>s. snd (fetchExtraData env names s))"
proof -
  have "(\<lambda>s. snd (fetchExtraData env names s)) =
        (\<lambda>s. snd (fetch_loop env (case names of None \<Rightarrow> [] | Some ns \<Rightarrow> ns)
                 (emit (LoggerInfo ''fetchExtraData'') s)))"
    by (simp add: fetchExtraData_def fun_eq_iff)
  then show ?thesis
    by (simp add: effect_after [OF effect_fetch_loop effect_emit])
qed

lemma map_add_twice: "m ++ w ++ w = m ++ w"
  by (rule ext) (simp add: map_add_def split: option.split)

lemma effect_twice:
  assumes "effect F"
  shows "tbl (F (F s)) = tbl (F s)" and "aggregated (F (F s)) = aggregated (F s)"
proof -
  from assms obtain w evs where F: "\<And>s. F s = s\<lparr>tbl := tbl s ++ w, events := events s @ evs\<rparr>"
    unfolding effect_def by blast
  show "tbl (F (F s)) = tbl (F s)"
    by (simp add: F map_add_twice)
  show "aggregated (F (F s)) = aggregated (F s)"
    by (simp add: F)
qed

subsection \<open>The aggregation loop\<close>

lemma store_get_Inr: "store_get env f n s = Inr v \<Longrightarrow> v = stored (tbl s) f n"
  by (auto simp: store_get_def stored_def split: option.splits)

lemma store_get_ok:
  "store_error env (OpGet f n) = None \<Longrightarrow> store_get env f n s = Inr (stored (tbl s) f n)"
  by (simp add: store_get_def stored_def)

lemma store_get_cong: "tbl s = tbl t \<Longrightarrow> store_get env f n s = store_get env f n t"
  by (simp add: store_get_def split: option.split)

lemma build_data_Inr: "build_data env n s = Inr d \<Longrightarrow> d = defaulted (tbl s) n"
  by (auto simp: build_data_def and_then_def defaulted_def split: sum.splits
        dest!: store_get_Inr)

lemma build_data_ok:
  "(\<And>f. store_error env (OpGet f n) = None) \<Longrightarrow> build_data env n s = Inr (defaulted (tbl s) n)"
  by (simp add: build_data_def and_then_def defaulted_def store_get_ok)

lemma build_data_cong: "tbl s = tbl t \<Longrightarrow> build_data env n s = build_data env n t"
  by (simp add: build_data_def store_get_cong [of s t])

lemma aggregate_loop_frame:
  "\<exists>evs. snd (aggregate_loop env names aggData s) = s\<lparr>events := events s @ evs\<rparr>
         \<and> filter is_write evs = []"
proof (induction names arbitrary: aggData s)
  case Nil
  show ?case by (simp add: exI [of _ "[]"])
next
  case (Cons n rest)
  show ?case
  proof (cases "packageExists env n")
    case False
    from Cons.IH [of aggData "emit (LoggerErrorPkg n ''package doesn't exist'') s"]
    obtain evs where
      "snd (aggregate_loop env rest aggData (emit (LoggerErrorPkg n ''package doesn't exist'') s))
         = (emit (LoggerErrorPkg n ''package doesn't exist'') s)
             \<lparr>events := events (emit (LoggerErrorPkg n ''package doesn't exist'') s) @ evs\<rparr>"
      and "filter is_write evs = []"
      by blast
    with False show ?thesis
      by (intro exI [of _ "LoggerErrorPkg n ''package doesn't exist'' # evs"])
         (simp add: emit_def)
  next
    case True
    show ?thesis
    proof (cases "build_data env n s")
      case (Inl e)
      with True show ?thesis by (simp add: exI [of _ "[]"])
    next
      case (Inr d)
      with True Cons.IH [of "AList.update n d aggData" s] show ?thesis by simp
    qed
  qed
qed

lemma aggregate_loop_result:
  "fst (aggregate_loop env names aggData s) = Inr m
     \<Longrightarrow> m = complete_mapping env (tbl s) names aggData"
proof (induction names arbitrary: aggData s)
  case Nil
  then show ?case by (simp add: complete_mapping_def)
next
  case (Cons n rest)
  show ?case
  proof (cases "packageExists env n")
    case False
    with Cons.prems Cons.IH [of aggData "emit (LoggerErrorPkg n ''package doesn't exist'') s"]
    show ?thesis by (simp add: complete_mapping_def)
  next
    case True
    show ?thesis
    proof (cases "build_data env n s")
      case (Inl e)
      with True Cons.prems show ?thesis by simp
    next
      case (Inr d)
      then have "d = defaulted (tbl s) n" by (rule build_data_Inr)
      with True Inr Cons.prems Cons.IH [of "AList.update n d aggData" s]
      show ?thesis by (simp add: complete_mapping_def)
    qed
  qed
qed

lemma aggregate_loop_ok:
  assumes "\<And>f n. store_error env (OpGet f n) = None"
  shows "fst (aggregate_loop env names aggData s) = Inr (complete_mapping env (tbl s) names aggData)"
proof (induction names arbitrary: aggData s)
  case Nil
  show ?case by (simp add: complete_mapping_def)
next
  case (Cons n rest)
  show ?case
    using Cons.IH [of aggData "emit (LoggerErrorPkg n ''package doesn't exist'') s"]
      Cons.IH [of "AList.update n (defaulted (tbl s) n) aggData" s]
    by (simp add: complete_mapping_def build_data_ok assms)
qed

lemma aggregate_loop_cong:
  "tbl s = tbl t \<Longrightarrow> fst (aggregate_loop env names aggData s) = fst (aggregate_loop env names aggData t)"
proof (induction names arbitrary: aggData s t)
  case Nil
  show ?case by simp
next
  case (Cons n rest)
  have b: "build_data env n s = build_data env n t"
    using Cons.prems by (rule build_data_cong)
  show ?case
  proof (cases "packageExists env n")
    case False
    with Cons.IH [of "emit (LoggerErrorPkg n ''package doesn't exist'') s"
        "emit (LoggerErrorPkg n ''package doesn't exist'') t" aggData] Cons.prems
    show ?thesis by simp
  next
    case True
    show ?thesis
    proof (cases "build_data env n t")
      case (Inl e)
      with True b show ?thesis by simp
    next
      case (Inr d)
      with True b Cons.IH [of s t "AList.update n d aggData"] Cons.prems
      show ?thesis by simp
    qed
  qed
qed

lemma complete_mapping_map_of:
  "map_of (complete_mapping env t names aggData) n =
     (if n \<in> set names \<and> packageExists env n then Some (defaulted t n) else map_of aggData n)"
  unfolding complete_mapping_def
proof (induction names arbitrary: aggData)
  case Nil
  show ?case by simp
next
  case (Cons a rest)
  show ?case
    by (cases "packageExists env a") (auto simp: Cons.IH update_conv')
qed

lemma complete_mapping_keys:
  "fst ` set (complete_mapping env t names aggData) =
     {n \<in> set names. packageExists env n} \<union> fst ` set aggData"
  unfolding complete_mapping_def
proof (induction names arbitrary: aggData)
  case Nil
  show ?case by simp
next
  case (Cons a rest)
  show ?case
    by (cases "packageExists env a") (auto simp: Cons.IH dom_update)
qed

lemma complete_mapping_distinct:
  "distinct (map fst aggData) \<Longrightarrow> distinct (map fst (complete_mapping env t names aggData))"
  unfolding complete_mapping_def
  by (induction names arbitrary: aggData) (simp_all add: distinct_update)

subsection \<open>Outcomes of aggregateExtraData\<close>

lemma aggregateExtraData_unfold:
  "aggregateExtraData env s =
     (case loadPackageNames env of
        Inl error \<Rightarrow> (Inl error, emit (LoggerInfo ''aggregateExtraData'') s)
      | Inr names \<Rightarrow>
          (case fst (aggregate_loop env names [] (emit (LoggerInfo ''aggregateExtraData'') s)) of
             Inl error \<Rightarrow>
               (Inl error, snd (aggregate_loop env names [] (emit (LoggerInfo ''aggregateExtraData'') s)))
           | Inr aggData \<Rightarrow>
               (case store_error env OpSetAggregated of
                  Some error \<Rightarrow>
                    (Inl error,
                     snd (aggregate_loop env names [] (emit (LoggerInfo ''aggregateExtraData'') s)))
                | None \<Rightarrow>
                    (Inr (),
                     emit (StoreSetAggregated aggData)
                       ((snd (aggregate_loop env names [] (emit (LoggerInfo ''aggregateExtraData'') s)))
                          \<lparr>aggregated := aggData\<rparr>)))))"
  by (simp add: aggregateExtraData_def setAggregatedExtraData_def Let_def
        split: sum.split prod.split option.split)

lemma aggregateExtraData_frame:
  "\<exists>evs. events (snd (aggregateExtraData env s)) = events s @ evs
       \<and> tbl (snd (aggregateExtraData env s)) = tbl s
       \<and> (case fst (aggregateExtraData env s) of
            Inl error \<Rightarrow>
              filter is_write evs = []
              \<and> aggregated (snd (aggregateExtraData env s)) = aggregated s
          | Inr u \<Rightarrow>
              (\<exists>names. loadPackageNames env = Inr names
                 \<and> filter is_write evs = [StoreSetAggregated (complete_mapping env (tbl s) names [])]
                 \<and> last evs = StoreSetAggregated (complete_mapping env (tbl s) names [])
                 \<and> aggregated (snd (aggregateExtraData env s))
                     = complete_mapping env (tbl s) names []))"
proof (cases "loadPackageNames env")
  case (Inl e)
  then show ?thesis
    by (intro exI [of _ "[LoggerInfo ''aggregateExtraData'']"])
       (simp add: aggregateExtraData_unfold)
next
  case (Inr names)
  let ?s1 = "emit (LoggerInfo ''aggregateExtraData'') s"
  from aggregate_loop_frame [of env names "[]" ?s1]
  obtain evs where
    loop: "snd (aggregate_loop env names [] ?s1) = ?s1\<lparr>events := events ?s1 @ evs\<rparr>"
    and quiet: "filter is_write evs = []"
    by blast
  show ?thesis
  proof (cases "fst (aggregate_loop env names [] ?s1)")
    case (Inl e)
    with Inr loop quiet show ?thesis
      by (intro exI [of _ "LoggerInfo ''aggregateExtraData'' # evs"])
         (simp add: aggregateExtraData_unfold)
  next
    case loop_ok: (Inr m)
    then have m: "m = complete_mapping env (tbl s) names []"
      using aggregate_loop_result [of env names "[]" ?s1 m] by simp
    show ?thesis
    proof (cases "store_error env OpSetAggregated")
      case (Some e)
      with Inr loop_ok loop quiet show ?thesis
        by (intro exI [of _ "LoggerInfo ''aggregateExtraData'' # evs"])
           (simp add: aggregateExtraData_unfold)
    next
      case None
      with Inr loop_ok loop quiet m show ?thesis
        by (intro exI [of _ "LoggerInfo ''aggregateExtraData'' # evs @ [StoreSetAggregated m]"])
           (simp add: aggregateExtraData_unfold)
    qed
  qed
qed

lemma aggregateExtraData_ok:
  assumes "loadPackageNames env = Inr names"
    and "\<And>f n. store_error env (OpGet f n) = None"
    and "store_error env OpSetAggregated = None"
  shows "fst (aggregateExtraData env s) = Inr ()"
  using assms(1,3) aggregate_loop_ok [of env names "[]", OF assms(2)]
  by (simp add: aggregateExtraData_unfold)

lemma aggregateExtraData_cong:
  assumes "tbl s = tbl t" and "aggregated s = aggregated t"
  shows "fst (aggregateExtraData env s) = fst (aggregateExtraData env t)"
    and "aggregated (snd (aggregateExtraData env s)) = aggregated (snd (aggregateExtraData env t))"
proof -
  have loop: "fst (aggregate_loop env names [] (emit (LoggerInfo ''aggregateExtraData'') s))
      = fst (aggregate_loop env names [] (emit (LoggerInfo ''aggregateExtraData'') t))" for names
    using assms(1) by (intro aggregate_loop_cong) simp
  have frame: "aggregated (snd (aggregate_loop env names [] (emit (LoggerInfo ''aggregateExtraData'') w)))
      = aggregated w" for names w
    using aggregate_loop_frame [of env names "[]" "emit (LoggerInfo ''aggregateExtraData'') w"]
    by auto
  show "fst (aggregateExtraData env s) = fst (aggregateExtraData env t)"
    by (simp add: aggregateExtraData_unfold loop split: sum.split option.split)
  show "aggregated (snd (aggregateExtraData env s)) = aggregated (snd (aggregateExtraData env t))"
    by (simp add: aggregateExtraData_unfold loop frame assms(2) split: sum.split option.split)
qed

text \<open>
  Claim C10. Called with \<^verbatim>\<open>null\<close> or \<^verbatim>\<open>undefined\<close>, \<^verbatim>\<open>fetchExtraData\<close> returns normally and
  leaves the state as it was but for its one \<^verbatim>\<open>logger.info\<close> line: no request is sent, so
  no fetcher ran, and nothing is written to the store.
\<close>

theorem fetchExtraData_null:
  "fetchExtraData env None s = (Inr (), s\<lparr>events := events s @ [LoggerInfo ''fetchExtraData'']\<rparr>)"
  by (simp add: fetchExtraData_def emit_def)

subsection \<open>Enrichment twice, and the enrichment loop\<close>

lemma fetch_loop_outcome:
  "fst (fetch_loop env names s) = fst (fetch_loop env names t)"
proof (induction names arbitrary: s t)
  case Nil
  show ?case by simp
next
  case (Cons n rest)
  show ?case
  proof (cases "packageExists env n")
    case False
    with Cons.IH show ?thesis by simp
  next
    case True
    show ?thesis
    proof (cases "loadPackage env n")
      case (Inl e)
      with True show ?thesis by simp
    next
      case (Inr d)
      with True Cons.IH show ?thesis
        by (cases d) (simp_all add: Let_def)
    qed
  qed
qed

lemma fetchExtraData_outcome:
  "fst (fetchExtraData env names s) = fst (fetchExtraData env names t)"
  unfolding fetchExtraData_def by (rule fetch_loop_outcome)

text \<open>
  Claim C9. With the collaborators fixed, enriching twice and then aggregating leaves the
  same aggregated mapping, and the same outcome, as enriching once and then aggregating;
  the second enrichment run already leaves every stored field as the first one did.
\<close>

theorem enrich_twice_then_aggregate:
  "aggregated (snd (aggregateExtraData env
      (snd (fetchExtraData env names (snd (fetchExtraData env names s))))))
   = aggregated (snd (aggregateExtraData env (snd (fetchExtraData env names s))))
   \<and> tbl (snd (fetchExtraData env names (snd (fetchExtraData env names s))))
     = tbl (snd (fetchExtraData env names s))
   \<and> fst (aggregateExtraData env
      (snd (fetchExtraData env names (snd (fetchExtraData env names s)))))
   = fst (aggregateExtraData env (snd (fetchExtraData env names s)))
   \<and> fst (fetchExtraData env names (snd (fetchExtraData env names s)))
   = fst (fetchExtraData env names s)"
proof -
  let ?F = "\<lambda>w. snd (fetchExtraData env names w)"
  have t: "tbl (?F (?F s)) = tbl (?F s)" and a: "aggregated (?F (?F s)) = aggregated (?F s)"
    by (rule effect_twice [OF effect_fetchExtraData])+
  from aggregateExtraData_cong [OF t a, of env] fetchExtraData_outcome [of env names "?F s" s] t
  show ?thesis by simp
qed


subsection \<open>Star counts\<close>

lemma store_set_ok:
  "store_error env (OpSet f n) = None \<Longrightarrow>
   store_set env f n v s = Inr (emit (StoreSet f n v) (s\<lparr>tbl := (tbl s)((f, n) \<mapsto> v)\<rparr>))"
  by (simp add: store_set_def)

lemma js_or_number [simp]: "js_or (JNum a) (JNum 0) = JNum a"
  by (simp add: js_or_def)

lemma js_add_numbers [simp]: "js_add (JNum a) (JNum b) = JNum (a + b)"
  by (simp add: js_add_def)

lemma stars_of_alone:
  "map_of kvs ''stargazers_count'' = Some (JNum a) \<Longrightarrow> map_of kvs ''parent'' = None
   \<Longrightarrow> stars_of (JObj kvs) = Inr (JNum a)"
  by (simp add: stars_of_def and_then_def js_or_def)

lemma stars_of_parent:
  "map_of kvs ''stargazers_count'' = Some (JNum a) \<Longrightarrow> map_of kvs ''parent'' = Some (JObj pk)
   \<Longrightarrow> map_of pk ''stargazers_count'' = Some (JNum b)
   \<Longrightarrow> stars_of (JObj kvs) = Inr (JNum (a + b))"
  by (simp add: stars_of_def and_then_def)

lemma fetchStars_written:
  "http_get env (stars_request env r) = Inr d \<Longrightarrow> stars_of d = Inr v
   \<Longrightarrow> store_error env (OpSet Stars n) = None
   \<Longrightarrow> fetchStars env r n s =
       emit (StoreSet Stars n v)
         ((emit (HttpGet (stars_request env r)) s)\<lparr>tbl := (tbl s)((Stars, n) \<mapsto> v)\<rparr>)"
  by (simp add: fetchStars_def Let_def store_set_ok)

lemma aggregated_record:
  assumes "fst (aggregateExtraData env w) = Inr ()"
    and "(n, r) \<in> set (aggregated (snd (aggregateExtraData env w)))"
  shows "r = defaulted (tbl w) n"
proof -
  from aggregateExtraData_frame [of env w] assms(1)
  obtain names where
    m: "aggregated (snd (aggregateExtraData env w)) = complete_mapping env (tbl w) names []"
    by auto
  have "distinct (map fst (complete_mapping env (tbl w) names []))"
    by (rule complete_mapping_distinct) simp
  with assms(2) m have "map_of (complete_mapping env (tbl w) names []) n = Some r"
    by simp
  then show ?thesis
    by (simp add: complete_mapping_map_of split: if_splits)
qed

text \<open>
  Claim C2. On a repo-API response that carries the primary repo's count, the star fetcher
  writes that count when the response has no parent, and the sum of the two counts when it
  has a parent object with a count; and a package with no stored star value gets
  \<open>stars = 0\<close> in the aggregated record.
\<close>

theorem star_count_sum:
  assumes "http_get env (stars_request env r) = Inr (JObj kvs)"
    and "map_of kvs ''stargazers_count'' = Some (JNum a)"
    and "store_error env (OpSet Stars n) = None"
  shows "(map_of kvs ''parent'' = None \<longrightarrow>
            fetchStars env r n s =
              emit (StoreSet Stars n (JNum a))
                ((emit (HttpGet (stars_request env r)) s)\<lparr>tbl := (tbl s)((Stars, n) \<mapsto> JNum a)\<rparr>))
       \<and> (\<forall>pk b. map_of kvs ''parent'' = Some (JObj pk)
              \<and> map_of pk ''stargazers_count'' = Some (JNum b) \<longrightarrow>
            fetchStars env r n s =
              emit (StoreSet Stars n (JNum (a + b)))
                ((emit (HttpGet (stars_request env r)) s)
                   \<lparr>tbl := (tbl s)((Stars, n) \<mapsto> JNum (a + b))\<rparr>))
       \<and> (\<forall>env' w rec. tbl w (Stars, n) = None
              \<and> fst (aggregateExtraData env' w) = Inr ()
              \<and> (n, rec) \<in> set (aggregated (snd (aggregateExtraData env' w))) \<longrightarrow>
            stars rec = JNum 0)"
proof (intro conjI allI impI)
  assume "map_of kvs ''parent'' = None"
  with assms(2) have "stars_of (JObj kvs) = Inr (JNum a)"
    by (rule stars_of_alone)
  with assms(1,3) show "fetchStars env r n s =
      emit (StoreSet Stars n (JNum a))
        ((emit (HttpGet (stars_request env r)) s)\<lparr>tbl := (tbl s)((Stars, n) \<mapsto> JNum a)\<rparr>)"
    by (simp add: fetchStars_written)
next
  fix pk b
  assume "map_of kvs ''parent'' = Some (JObj pk) \<and> map_of pk ''stargazers_count'' = Some (JNum b)"
  with assms(2) have "stars_of (JObj kvs) = Inr (JNum (a + b))"
    by (simp add: stars_of_parent)
  with assms(1,3) show "fetchStars env r n s =
      emit (StoreSet Stars n (JNum (a + b)))
        ((emit (HttpGet (stars_request env r)) s)\<lparr>tbl := (tbl s)((Stars, n) \<mapsto> JNum (a + b))\<rparr>)"
    by (simp add: fetchStars_written)
next
  fix env' w rec
  assume h: "tbl w (Stars, n) = None \<and> fst (aggregateExtraData env' w) = Inr ()
      \<and> (n, rec) \<in> set (aggregated (snd (aggregateExtraData env' w)))"
  then have "rec = defaulted (tbl w) n"
    by (intro aggregated_record [of env']) simp_all
  with h show "stars rec = JNum 0"
    by (simp add: defaulted_def stored_def js_or_def)
qed

subsection \<open>The examples\<close>


lemmas example_defs =
  offline_def answering_def foo_bar_def catalog_def empty_world_def seeded_world_def

theorem star_count_sum_witness:
  "tbl (fetchStars (answering (JObj [(''stargazers_count'', JNum 42)]))
          ''foo/bar'' ''com.foo.bar'' empty_world) (Stars, ''com.foo.bar'')
     = Some (JNum 42)
   \<and> tbl (fetchStars
            (answering (JObj [(''stargazers_count'', JNum 42),
                              (''parent'', JObj [(''stargazers_count'', JNum 8)])]))
          ''foo/bar'' ''com.foo.bar'' empty_world) (Stars, ''com.foo.bar'')
     = Some (JNum 50)
   \<and> tbl empty_world (Stars, ''com.foo.bar'') = None
   \<and> fst (aggregateExtraData catalog empty_world) = Inr ()
   \<and> (''com.foo.bar'', defaulted (tbl empty_world) ''com.foo.bar'')
        \<in> set (aggregated (snd (aggregateExtraData catalog empty_world)))
   \<and> stars (defaulted (tbl empty_world) ''com.foo.bar'') = JNum 0"
proof -
  let ?solo = "[(''stargazers_count'', JNum 42)]"
  let ?fork = "[(''stargazers_count'', JNum 42), (''parent'', JObj [(''stargazers_count'', JNum 8)])]"
  have solo: "http_get (answering (JObj ?solo)) (stars_request (answering (JObj ?solo)) ''foo/bar'')
      = Inr (JObj ?solo)"
    by (simp add: example_defs)
  have fork: "http_get (answering (JObj ?fork)) (stars_request (answering (JObj ?fork)) ''foo/bar'')
      = Inr (JObj ?fork)"
    by (simp add: example_defs)
  have store: "store_error (answering d) (OpSet Stars ''com.foo.bar'') = None" for d
    by (simp add: example_defs)
  have none: "tbl empty_world (Stars, ''com.foo.bar'') = None"
    by (simp add: example_defs)
  have agg: "fst (aggregateExtraData catalog empty_world) = Inr ()"
    by (rule aggregateExtraData_ok [of _ "[''com.foo.bar'', ''com.gone'']"])
       (simp_all add: example_defs)
  have mem: "(''com.foo.bar'', defaulted (tbl empty_world) ''com.foo.bar'')
      \<in> set (aggregated (snd (aggregateExtraData catalog empty_world)))"
    by (simp add: example_defs aggregateExtraData_def Let_def build_data_def store_get_def
          and_then_def setAggregatedExtraData_def defaulted_def stored_def emit_def js_or_def)
  have solo_count: "map_of ?solo ''stargazers_count'' = Some (JNum 42)"
    by simp
  have fork_count: "map_of ?fork ''stargazers_count'' = Some (JNum 42)"
    by simp
  note A = star_count_sum [of "answering (JObj ?solo)" "''foo/bar''" ?solo 42 "''com.foo.bar''"
      empty_world, OF solo solo_count store]
  note B = star_count_sum [of "answering (JObj ?fork)" "''foo/bar''" ?fork 42 "''com.foo.bar''"
      empty_world, OF fork fork_count store]
  have a: "tbl (fetchStars (answering (JObj ?solo)) ''foo/bar'' ''com.foo.bar'' empty_world)
      (Stars, ''com.foo.bar'') = Some (JNum 42)"
    using A by simp
  have b: "tbl (fetchStars (answering (JObj ?fork)) ''foo/bar'' ''com.foo.bar'' empty_world)
      (Stars, ''com.foo.bar'') = Some (JNum 50)"
    using B by simp
  have c: "stars (defaulted (tbl empty_world) ''com.foo.bar'') = JNum 0"
    using A none agg mem by blast
  from a b c none agg mem show ?thesis by blast
qed

subsection \<open>The orchestrator attempts every package\<close>








lemma request_fetchOGImageForRepo:
  "HttpGet (og_request env r) \<in> set (events (snd (fetchOGImageForRepo env r s)))"
  by (simp add: fetchOGImageForRepo_def Let_def split: sum.split)


lemma events_fetchOGImage:
  "set (events (og_world env p s)) \<subseteq> set (events (fetchOGImage env p n s))"
  by (auto simp: fetchOGImage_unfold store_set_def split: sum.split option.split)








subsection \<open>What aggregation writes\<close>

lemma aggregate_loop_events:
  assumes "\<And>f n. store_error env (OpGet f n) = None"
  shows "snd (aggregate_loop env names aggData s)
           = s\<lparr>events := events s @ skipped_logs env names\<rparr>"
proof (induction names arbitrary: aggData s)
  case Nil
  show ?case by (simp add: skipped_logs_def)
next
  case (Cons n rest)
  show ?case
  proof (cases "packageExists env n")
    case False
    then show ?thesis
      by (simp add: Cons.IH skipped_logs_def emit_def)
  next
    case True
    then show ?thesis
      using Cons.IH [of "AList.update n (defaulted (tbl s) n) aggData" s]
      by (simp add: build_data_ok assms skipped_logs_def)
  qed
qed

lemma aggregateExtraData_events:
  assumes "loadPackageNames env = Inr names"
    and "\<And>f n. store_error env (OpGet f n) = None"
    and "store_error env OpSetAggregated = None"
  shows "events (snd (aggregateExtraData env s))
           = events s @ LoggerInfo ''aggregateExtraData'' # skipped_logs env names
               @ [StoreSetAggregated (complete_mapping env (tbl s) names [])]"
  using assms(1,3) aggregate_loop_ok [of env names "[]", OF assms(2)]
    aggregate_loop_events [of env names "[]", OF assms(2)]
  by (simp add: aggregateExtraData_unfold)

text \<open>
  Claim C8. \<^verbatim>\<open>aggregateExtraData\<close> only appends events and never touches a stored field.
  When the enumerator lists, the reads answer and the store accepts the bulk write, it
  succeeds. When it succeeds, its only store write is the bulk write, which is its last
  action and carries the complete mapping, one defaulted record for every listed name that
  passes the existence check. When it fails, it has performed no store write at all and
  the stored aggregated mapping is the previous one.
\<close>

theorem aggregation_atomic:
  "take (length (events s)) (events (snd (aggregateExtraData env s))) = events s
   \<and> tbl (snd (aggregateExtraData env s)) = tbl s
   \<and> (\<forall>names. loadPackageNames env = Inr names
          \<and> (\<forall>f n. store_error env (OpGet f n) = None)
          \<and> store_error env OpSetAggregated = None \<longrightarrow>
        fst (aggregateExtraData env s) = Inr ())
   \<and> (case fst (aggregateExtraData env s) of
        Inl error \<Rightarrow>
          filter is_write (drop (length (events s)) (events (snd (aggregateExtraData env s)))) = []
          \<and> aggregated (snd (aggregateExtraData env s)) = aggregated s
      | Inr u \<Rightarrow>
          (\<exists>names. loadPackageNames env = Inr names
             \<and> filter is_write (drop (length (events s)) (events (snd (aggregateExtraData env s))))
                 = [StoreSetAggregated (complete_mapping env (tbl s) names [])]
             \<and> last (events (snd (aggregateExtraData env s)))
                 = StoreSetAggregated (complete_mapping env (tbl s) names [])
             \<and> aggregated (snd (aggregateExtraData env s))
                 = complete_mapping env (tbl s) names []))"
proof -
  from aggregateExtraData_frame [of env s]
  obtain evs where
    evs: "events (snd (aggregateExtraData env s)) = events s @ evs"
    and fields: "tbl (snd (aggregateExtraData env s)) = tbl s"
    and outcome: "case fst (aggregateExtraData env s) of
        Inl error \<Rightarrow>
          filter is_write evs = []
          \<and> aggregated (snd (aggregateExtraData env s)) = aggregated s
      | Inr u \<Rightarrow>
          (\<exists>names. loadPackageNames env = Inr names
             \<and> filter is_write evs = [StoreSetAggregated (complete_mapping env (tbl s) names [])]
             \<and> last evs = StoreSetAggregated (complete_mapping env (tbl s) names [])
             \<and> aggregated (snd (aggregateExtraData env s))
                 = complete_mapping env (tbl s) names [])"
    by blast
  have succeeds: "\<forall>names. loadPackageNames env = Inr names
        \<and> (\<forall>f n. store_error env (OpGet f n) = None)
        \<and> store_error env OpSetAggregated = None \<longrightarrow>
      fst (aggregateExtraData env s) = Inr ()"
    by (auto intro: aggregateExtraData_ok)
  have split: "case fst (aggregateExtraData env s) of
        Inl error \<Rightarrow>
          filter is_write (drop (length (events s)) (events (snd (aggregateExtraData env s)))) = []
          \<and> aggregated (snd (aggregateExtraData env s)) = aggregated s
      | Inr u \<Rightarrow>
          (\<exists>names. loadPackageNames env = Inr names
             \<and> filter is_write (drop (length (events s)) (events (snd (aggregateExtraData env s))))
                 = [StoreSetAggregated (complete_mapping env (tbl s) names [])]
             \<and> last (events (snd (aggregateExtraData env s)))
                 = StoreSetAggregated (complete_mapping env (tbl s) names [])
             \<and> aggregated (snd (aggregateExtraData env s))
                 = complete_mapping env (tbl s) names [])"
  proof (cases "fst (aggregateExtraData env s)")
    case (Inl e)
    with evs outcome show ?thesis by simp
  next
    case (Inr u)
    with outcome obtain names where
      "loadPackageNames env = Inr names"
      and wr: "filter is_write evs = [StoreSetAggregated (complete_mapping env (tbl s) names [])]"
      and "last evs = StoreSetAggregated (complete_mapping env (tbl s) names [])"
      and "aggregated (snd (aggregateExtraData env s)) = complete_mapping env (tbl s) names []"
      by auto
    moreover from wr have "evs \<noteq> []" by auto
    ultimately show ?thesis
      using Inr evs by simp
  qed
  from evs fields succeeds split show ?thesis by simp
qed

theorem aggregation_atomic_witness:
  "fst (aggregateExtraData catalog seeded_world) = Inr ()
   \<and> filter is_write (events (snd (aggregateExtraData catalog seeded_world)))
       = [StoreSetAggregated
            [(''com.foo.bar'',
              \<lparr>stars = JNum 0, unity = JStr ''2019.4'',
               imageUrl = JStr ''https://example.org/card.png'', time = JNum 1600000000000\<rparr>)]]
   \<and> last (events (snd (aggregateExtraData catalog seeded_world)))
       = StoreSetAggregated
            [(''com.foo.bar'',
              \<lparr>stars = JNum 0, unity = JStr ''2019.4'',
               imageUrl = JStr ''https://example.org/card.png'', time = JNum 1600000000000\<rparr>)]
   \<and> aggregated (snd (aggregateExtraData catalog seeded_world))
       = [(''com.foo.bar'',
           \<lparr>stars = JNum 0, unity = JStr ''2019.4'',
            imageUrl = JStr ''https://example.org/card.png'', time = JNum 1600000000000\<rparr>)]
   \<and> tbl (snd (aggregateExtraData catalog seeded_world)) = tbl seeded_world
   \<and> fst (aggregateExtraData broken_reads seeded_world) = Inl StoreError
   \<and> aggregated (snd (aggregateExtraData broken_reads seeded_world)) = aggregated seeded_world
   \<and> tbl (snd (aggregateExtraData broken_reads seeded_world)) = tbl seeded_world
   \<and> filter is_write (events (snd (aggregateExtraData broken_reads seeded_world))) = []"
proof -
  let ?m = "[(''com.foo.bar'',
           \<lparr>stars = JNum 0, unity = JStr ''2019.4'',
            imageUrl = JStr ''https://example.org/card.png'', time = JNum 1600000000000\<rparr>)]"
  have answers: "loadPackageNames catalog = Inr [''com.foo.bar'', ''com.gone'']
      \<and> (\<forall>f n. store_error catalog (OpGet f n) = None)
      \<and> store_error catalog OpSetAggregated = None"
    by (simp add: example_defs)
  have complete: "complete_mapping catalog (tbl seeded_world) [''com.foo.bar'', ''com.gone''] [] = ?m"
    by (simp add: example_defs complete_mapping_def defaulted_def stored_def js_or_def)
  have failed: "fst (aggregateExtraData broken_reads seeded_world) = Inl StoreError"
    by (simp add: broken_reads_def example_defs aggregateExtraData_def Let_def build_data_def
          store_get_def and_then_def emit_def)
  have quiet: "events seeded_world = []"
    by (simp add: example_defs)
  note A = aggregation_atomic [of seeded_world catalog]
  note B = aggregation_atomic [of seeded_world broken_reads]
  from A answers have ok: "fst (aggregateExtraData catalog seeded_world) = Inr ()"
    by blast
  from A ok answers quiet complete
  have written: "filter is_write (events (snd (aggregateExtraData catalog seeded_world)))
        = [StoreSetAggregated ?m]
      \<and> last (events (snd (aggregateExtraData catalog seeded_world))) = StoreSetAggregated ?m
      \<and> aggregated (snd (aggregateExtraData catalog seeded_world)) = ?m
      \<and> tbl (snd (aggregateExtraData catalog seeded_world)) = tbl seeded_world"
    by simp
  from B failed quiet
  have kept: "aggregated (snd (aggregateExtraData broken_reads seeded_world)) = aggregated seeded_world
      \<and> tbl (snd (aggregateExtraData broken_reads seeded_world)) = tbl seeded_world
      \<and> filter is_write (events (snd (aggregateExtraData broken_reads seeded_world))) = []"
    by simp
  from ok written failed kept show ?thesis by blast
qed

lemma aggregated_unity:
  "unity (defaulted t n) =
     (case t (Unity, n) of
        None \<Rightarrow> JStr ''2018.1''
      | Some v \<Rightarrow> if truthy v then v else JStr ''2018.1'')"
  by (simp add: defaulted_def stored_def js_or_def split: option.split)

text \<open>
  Claim C1, as amended. When the enumerator lists and the store answers,
  \<^verbatim>\<open>aggregateExtraData\<close> succeeds; what it does is its \<^verbatim>\<open>logger.info\<close> line, one
  \<^verbatim>\<open>logger.error\<close> line for every listed identifier that fails the existence check, and
  then the bulk write, its only store write. The mapping it writes has exactly one record
  for every listed identifier that passes the existence check and no other entry. In every
  record the runtime version is the stored unity value when one is stored and truthy, and
  \<^verbatim>\<open>"2018.1"\<close> otherwise.
\<close>

theorem aggregated_one_record_per_existing_package:
  assumes "loadPackageNames env = Inr names"
    and "\<forall>f n. store_error env (OpGet f n) = None"
    and "store_error env OpSetAggregated = None"
  shows "fst (aggregateExtraData env s) = Inr ()
       \<and> events (snd (aggregateExtraData env s))
           = events s @ LoggerInfo ''aggregateExtraData'' # skipped_logs env names
               @ [StoreSetAggregated (aggregated (snd (aggregateExtraData env s)))]
       \<and> filter is_write (drop (length (events s)) (events (snd (aggregateExtraData env s))))
           = [StoreSetAggregated (aggregated (snd (aggregateExtraData env s)))]
       \<and> distinct (map fst (aggregated (snd (aggregateExtraData env s))))
       \<and> fst ` set (aggregated (snd (aggregateExtraData env s)))
           = {n \<in> set names. packageExists env n}
       \<and> (\<forall>n r. (n, r) \<in> set (aggregated (snd (aggregateExtraData env s))) \<longrightarrow>
            unity r = (case tbl s (Unity, n) of
                         None \<Rightarrow> JStr ''2018.1''
                       | Some v \<Rightarrow> if truthy v then v else JStr ''2018.1''))"
proof -
  have ok: "fst (aggregateExtraData env s) = Inr ()"
    using assms by (intro aggregateExtraData_ok) simp_all
  with aggregateExtraData_frame [of env s] assms(1)
  obtain evs where
    evs: "events (snd (aggregateExtraData env s)) = events s @ evs"
    and wr: "filter is_write evs = [StoreSetAggregated (complete_mapping env (tbl s) names [])]"
    and m: "aggregated (snd (aggregateExtraData env s)) = complete_mapping env (tbl s) names []"
    by auto
  have trace: "events (snd (aggregateExtraData env s))
      = events s @ LoggerInfo ''aggregateExtraData'' # skipped_logs env names
          @ [StoreSetAggregated (aggregated (snd (aggregateExtraData env s)))]"
    unfolding m using assms by (intro aggregateExtraData_events) simp_all
  have one: "filter is_write (drop (length (events s)) (events (snd (aggregateExtraData env s))))
      = [StoreSetAggregated (aggregated (snd (aggregateExtraData env s)))]"
    by (simp add: evs wr m)
  have keys: "fst ` set (aggregated (snd (aggregateExtraData env s)))
      = {n \<in> set names. packageExists env n}"
    by (simp add: m complete_mapping_keys)
  have dist: "distinct (map fst (aggregated (snd (aggregateExtraData env s))))"
    by (simp add: m complete_mapping_distinct)
  have un: "\<forall>n r. (n, r) \<in> set (aggregated (snd (aggregateExtraData env s))) \<longrightarrow>
      unity r = (case tbl s (Unity, n) of
                   None \<Rightarrow> JStr ''2018.1''
                 | Some v \<Rightarrow> if truthy v then v else JStr ''2018.1'')"
    using aggregated_record [OF ok] aggregated_unity by blast
  from ok trace one dist keys un show ?thesis by blast
qed

theorem aggregated_one_record_per_existing_package_witness:
  "fst (aggregateExtraData catalog seeded_world) = Inr ()
   \<and> events (snd (aggregateExtraData catalog seeded_world))
       = [LoggerInfo ''aggregateExtraData'',
          LoggerErrorPkg ''com.gone'' ''package doesn't exist'',
          StoreSetAggregated (aggregated (snd (aggregateExtraData catalog seeded_world)))]
   \<and> fst ` set (aggregated (snd (aggregateExtraData catalog seeded_world))) = {''com.foo.bar''}
   \<and> (''com.foo.bar'',
       \<lparr>stars = JNum 0, unity = JStr ''2019.4'',
        imageUrl = JStr ''https://example.org/card.png'', time = JNum 1600000000000\<rparr>)
       \<in> set (aggregated (snd (aggregateExtraData catalog seeded_world)))
   \<and> unity \<lparr>stars = JNum 0, unity = JStr ''2019.4'',
        imageUrl = JStr ''https://example.org/card.png'', time = JNum 1600000000000\<rparr>
       = JStr ''2019.4''"
proof -
  let ?r = "\<lparr>stars = JNum 0, unity = JStr ''2019.4'',
        imageUrl = JStr ''https://example.org/card.png'', time = JNum 1600000000000\<rparr>"
  have lists: "loadPackageNames catalog = Inr [''com.foo.bar'', ''com.gone'']"
    by (simp add: example_defs)
  have reads: "\<forall>f n. store_error catalog (OpGet f n) = None"
    by (simp add: example_defs)
  have writes: "store_error catalog OpSetAggregated = None"
    by (simp add: example_defs)
  have existing: "{n \<in> set [''com.foo.bar'', ''com.gone'']. packageExists catalog n} = {''com.foo.bar''}"
    by (auto simp: example_defs)
  have skipped: "skipped_logs catalog [''com.foo.bar'', ''com.gone'']
      = [LoggerErrorPkg ''com.gone'' ''package doesn't exist'']"
    by (simp add: example_defs skipped_logs_def)
  have quiet: "events seeded_world = []"
    by (simp add: example_defs)
  have mem: "(''com.foo.bar'', ?r) \<in> set (aggregated (snd (aggregateExtraData catalog seeded_world)))"
    by (simp add: example_defs aggregateExtraData_def Let_def build_data_def store_get_def
          and_then_def setAggregatedExtraData_def emit_def js_or_def)
  note T = aggregated_one_record_per_existing_package [OF lists reads writes, of seeded_world]
  from T have "fst (aggregateExtraData catalog seeded_world) = Inr ()"
    by blast
  moreover from T skipped quiet
  have "events (snd (aggregateExtraData catalog seeded_world))
       = [LoggerInfo ''aggregateExtraData'',
          LoggerErrorPkg ''com.gone'' ''package doesn't exist'',
          StoreSetAggregated (aggregated (snd (aggregateExtraData catalog seeded_world)))]"
    by simp
  moreover from T existing
  have "fst ` set (aggregated (snd (aggregateExtraData catalog seeded_world))) = {''com.foo.bar''}"
    by simp
  moreover from T mem have "unity ?r = JStr ''2019.4''"
    by simp
  ultimately show ?thesis using mem by blast
qed

theorem aggregated_listing_counterexample:
  "loadPackageNames stale_listing = Inr [''com.foo.bar'']
   \<and> fst (aggregateExtraData stale_listing empty_world) = Inr ()
   \<and> aggregated (snd (aggregateExtraData stale_listing empty_world)) = []
   \<and> fst ` set (aggregated (snd (aggregateExtraData stale_listing empty_world)))
       \<noteq> set [''com.foo.bar'']"
  by (simp add: stale_listing_def example_defs aggregateExtraData_def Let_def
        setAggregatedExtraData_def emit_def)

subsection \<open>What a fetcher does when its request fails\<close>

lemma js_member_error: "js_member v k = Inl e \<Longrightarrow> e = TypeError"
  by (cases v) simp_all

lemma js_member_truthy: "truthy v \<Longrightarrow> \<exists>r. js_member v k = Inr r"
  by (cases v) simp_all

lemma js_member_or_object: "\<exists>r. js_member (js_or v (JObj [])) k = Inr r"
  by (cases "truthy v") (simp_all add: js_or_def js_member_truthy)

lemma unity_of_error: "unity_of d = Inl e \<Longrightarrow> e = TypeError"
  by (auto simp: unity_of_def and_then_def split: sum.splits dest: js_member_error)

lemma stars_of_error: "stars_of d = Inl e \<Longrightarrow> e = TypeError"
  by (auto simp: stars_of_def and_then_def split: sum.splits if_splits dest: js_member_error)

lemma time_stamp_total: "\<exists>stamp. time_stamp d = Inr stamp"
proof -
  obtain distTags where 1: "js_member (js_or d (JObj [])) ''dist-tags'' = Inr distTags"
    using js_member_or_object by blast
  obtain version where 2: "js_member (js_or distTags (JObj [])) ''latest'' = Inr version"
    using js_member_or_object by blast
  obtain times where 3: "js_member (js_or d (JObj [])) ''time'' = Inr times"
    using js_member_or_object by blast
  obtain stamp where 4: "js_member (js_or times (JObj [])) (js_to_string version) = Inr stamp"
    using js_member_or_object by blast
  from 1 2 3 4 have "time_stamp d = Inr stamp"
    by (simp add: time_stamp_def Let_def and_then_def)
  then show ?thesis by blast
qed

lemma fetchUnityVersion_rejected:
  "http_get env (unity_request env n) = Inl e \<Longrightarrow>
   fetchUnityVersion env n s =
     (if is404 e then s\<lparr>events := events s @ [HttpGet (unity_request env n)]\<rparr>
      else s\<lparr>events := events s @ [HttpGet (unity_request env n), LoggerError e]\<rparr>)"
  by (simp add: fetchUnityVersion_def Let_def unity_catch_def emit_def)

lemma fetchUnityVersion_misshapen:
  "http_get env (unity_request env n) = Inr d \<Longrightarrow> unity_of d = Inl e \<Longrightarrow>
   fetchUnityVersion env n s = s\<lparr>events := events s @ [HttpGet (unity_request env n), LoggerError e]\<rparr>"
  by (frule unity_of_error) (simp add: fetchUnityVersion_def Let_def unity_catch_def emit_def)

lemma fetchUpdatedTime_rejected:
  "http_get env (time_request env n) = Inl e \<Longrightarrow>
   fetchUpdatedTime env n s = s\<lparr>events := events s @ [HttpGet (time_request env n), ConsoleError e]\<rparr>"
  by (simp add: fetchUpdatedTime_def Let_def emit_def)

lemma fetchStars_rejected:
  "http_get env (stars_request env r) = Inl e \<Longrightarrow>
   fetchStars env r n s = s\<lparr>events := events s @ [HttpGet (stars_request env r), ConsoleError e]\<rparr>"
  by (simp add: fetchStars_def Let_def emit_def)

lemma fetchStars_misshapen:
  "http_get env (stars_request env r) = Inr d \<Longrightarrow> stars_of d = Inl e \<Longrightarrow>
   fetchStars env r n s = s\<lparr>events := events s @ [HttpGet (stars_request env r), ConsoleError e]\<rparr>"
  by (simp add: fetchStars_def Let_def emit_def)

lemma fetchReadme_rejected:
  "http_get env (readme_request env r) = Inl e \<Longrightarrow>
   fetchReadme env r n s = s\<lparr>events := events s @ [HttpGet (readme_request env r), ConsoleError e]\<rparr>"
  by (simp add: fetchReadme_def Let_def emit_def)

lemma fetchOGImageForRepo_rejected:
  "http_get env (og_request env r) = Inl e \<Longrightarrow>
   fetchOGImageForRepo env r s =
     (Some '''', s\<lparr>events := events s @ [HttpGet (og_request env r), ConsoleError e]\<rparr>)"
  by (simp add: fetchOGImageForRepo_def Let_def emit_def)

lemma fetchOGImage_rejected:
  "http_get env (og_request env (repo p)) = Inl e \<Longrightarrow> parentRepo p = None \<Longrightarrow>
   store_error env (OpSet ImageUrl n) = None \<Longrightarrow>
   fetchOGImage env p n s =
     s\<lparr>tbl := (tbl s)((ImageUrl, n) \<mapsto> JStr ''''),
       events := events s @ [HttpGet (og_request env (repo p)), ConsoleError e,
                             StoreSet ImageUrl n (JStr '''')]\<rparr>"
  by (simp add: fetchOGImage_def fetchOGImageForRepo_rejected store_set_ok image_value_def emit_def)

lemma fetchUpdatedTime_received:
  "http_get env (time_request env n) = Inr d \<Longrightarrow> time_stamp d = Inr stamp \<Longrightarrow>
   store_error env (OpSet UpdatedTime n) = None \<Longrightarrow>
   fetchUpdatedTime env n s =
     s\<lparr>tbl := (tbl s)((UpdatedTime, n) \<mapsto> date_getTime env (js_or stamp (JNum 0))),
       events := events s @ [HttpGet (time_request env n),
                             StoreSet UpdatedTime n (date_getTime env (js_or stamp (JNum 0)))]\<rparr>"
  by (simp add: fetchUpdatedTime_def Let_def time_of_def and_then_def store_set_ok emit_def)

subsection \<open>Not-found responses and failed fetches\<close>




lemma fetchUnityVersion_undeclared:
  "http_get env (unity_request env n) = Inr d \<Longrightarrow> unity_of d = Inr v \<Longrightarrow> \<not> truthy v \<Longrightarrow>
   fetchUnityVersion env n s = s\<lparr>events := events s @ [HttpGet (unity_request env n)]\<rparr>"
  by (simp add: fetchUnityVersion_def Let_def emit_def)

lemma stars_of_nothing:
  "map_of kvs ''stargazers_count'' = None \<Longrightarrow> map_of kvs ''parent'' = None
   \<Longrightarrow> stars_of (JObj kvs) = Inr (JNum 0)"
  by (simp add: stars_of_def and_then_def js_or_def)

lemma fetchStars_received:
  "http_get env (stars_request env r) = Inr d \<Longrightarrow> stars_of d = Inr v
   \<Longrightarrow> store_error env (OpSet Stars n) = None
   \<Longrightarrow> fetchStars env r n s =
       s\<lparr>tbl := (tbl s)((Stars, n) \<mapsto> v),
         events := events s @ [HttpGet (stars_request env r), StoreSet Stars n v]\<rparr>"
  by (simp add: fetchStars_def Let_def store_set_ok emit_def)

lemma fetchReadme_received:
  "http_get env (readme_request env r) = Inr body \<Longrightarrow> store_error env (OpSet Readme n) = None
   \<Longrightarrow> fetchReadme env r n s =
       s\<lparr>tbl := (tbl s)((Readme, n) \<mapsto> body),
         events := events s @ [HttpGet (readme_request env r), StoreSet Readme n body]\<rparr>"
  by (simp add: fetchReadme_def Let_def store_set_ok emit_def)

lemma fetchOGImage_no_tag:
  "http_get env (og_request env (repo p)) = Inr page \<Longrightarrow> cheerio_og_image env page = Inr None
   \<Longrightarrow> parentRepo p = None \<Longrightarrow> store_error env (OpSet ImageUrl n) = None
   \<Longrightarrow> fetchOGImage env p n s =
       s\<lparr>tbl := (tbl s)((ImageUrl, n) \<mapsto> JUndefined),
         events := events s @ [HttpGet (og_request env (repo p)), StoreSet ImageUrl n JUndefined]\<rparr>"
  by (simp add: fetchOGImage_def fetchOGImageForRepo_def Let_def is_avatar_def store_set_ok
        image_value_def emit_def)

text \<open>
  Claim C6, as amended. When the request of the updated-time, runtime-version, stars or
  readme fetcher is rejected, not-found included, or reading the response raises, every
  stored field and the aggregated mapping stay exactly as they were; so they do when the
  runtime-version fetcher receives a response that declares no runtime version. The other
  failures overwrite the stored value, without a log line: on a received response that has
  neither count nor parent the stars fetcher writes 0; on one without the publish stamp the
  updated-time fetcher writes 0, and NaN when the stamp is not a date; the readme fetcher
  writes whatever body it received. The cover-image fetcher writes the empty string when
  the page of a package without parent cannot be fetched, and \<^verbatim>\<open>undefined\<close> when the page
  has no social-preview tag.
\<close>

theorem failed_fetch_keeps_store:
  "(\<forall>e. http_get env (time_request env n) = Inl e \<longrightarrow>
      tbl (fetchUpdatedTime env n s) = tbl s
      \<and> aggregated (fetchUpdatedTime env n s) = aggregated s)
   \<and> (\<forall>e. http_get env (unity_request env n) = Inl e \<longrightarrow>
        tbl (fetchUnityVersion env n s) = tbl s
        \<and> aggregated (fetchUnityVersion env n s) = aggregated s)
   \<and> (\<forall>d e. http_get env (unity_request env n) = Inr d \<and> unity_of d = Inl e \<longrightarrow>
        tbl (fetchUnityVersion env n s) = tbl s
        \<and> aggregated (fetchUnityVersion env n s) = aggregated s)
   \<and> (\<forall>d v. http_get env (unity_request env n) = Inr d \<and> unity_of d = Inr v \<and> \<not> truthy v \<longrightarrow>
        fetchUnityVersion env n s = s\<lparr>events := events s @ [HttpGet (unity_request env n)]\<rparr>)
   \<and> (\<forall>e. http_get env (stars_request env r) = Inl e \<longrightarrow>
        tbl (fetchStars env r n s) = tbl s
        \<and> aggregated (fetchStars env r n s) = aggregated s)
   \<and> (\<forall>d e. http_get env (stars_request env r) = Inr d \<and> stars_of d = Inl e \<longrightarrow>
        tbl (fetchStars env r n s) = tbl s
        \<and> aggregated (fetchStars env r n s) = aggregated s)
   \<and> (\<forall>e. http_get env (readme_request env r) = Inl e \<longrightarrow>
        tbl (fetchReadme env r n s) = tbl s
        \<and> aggregated (fetchReadme env r n s) = aggregated s)
   \<and> (\<forall>kvs. http_get env (stars_request env r) = Inr (JObj kvs)
          \<and> map_of kvs ''stargazers_count'' = None \<and> map_of kvs ''parent'' = None
          \<and> store_error env (OpSet Stars n) = None \<longrightarrow>
        fetchStars env r n s =
          s\<lparr>tbl := (tbl s)((Stars, n) \<mapsto> JNum 0),
            events := events s @ [HttpGet (stars_request env r), StoreSet Stars n (JNum 0)]\<rparr>)
   \<and> (\<forall>d stamp. http_get env (time_request env n) = Inr d \<and> time_stamp d = Inr stamp
          \<and> \<not> truthy stamp \<and> store_error env (OpSet UpdatedTime n) = None \<longrightarrow>
        fetchUpdatedTime env n s =
          s\<lparr>tbl := (tbl s)((UpdatedTime, n) \<mapsto> JNum 0),
            events := events s @ [HttpGet (time_request env n), StoreSet UpdatedTime n (JNum 0)]\<rparr>)
   \<and> (\<forall>d x. http_get env (time_request env n) = Inr d \<and> time_stamp d = Inr (JStr x)
          \<and> x \<noteq> [] \<and> date_parse env x = None
          \<and> store_error env (OpSet UpdatedTime n) = None \<longrightarrow>
        fetchUpdatedTime env n s =
          s\<lparr>tbl := (tbl s)((UpdatedTime, n) \<mapsto> JNaN),
            events := events s @ [HttpGet (time_request env n), StoreSet UpdatedTime n JNaN]\<rparr>)
   \<and> (\<forall>body. http_get env (readme_request env r) = Inr body
          \<and> store_error env (OpSet Readme n) = None \<longrightarrow>
        fetchReadme env r n s =
          s\<lparr>tbl := (tbl s)((Readme, n) \<mapsto> body),
            events := events s @ [HttpGet (readme_request env r), StoreSet Readme n body]\<rparr>)
   \<and> (\<forall>e. http_get env (og_request env (repo p)) = Inl e \<and> parentRepo p = None
          \<and> store_error env (OpSet ImageUrl n) = None \<longrightarrow>
        fetchOGImage env p n s =
          s\<lparr>tbl := (tbl s)((ImageUrl, n) \<mapsto> JStr ''''),
            events := events s @ [HttpGet (og_request env (repo p)), ConsoleError e,
                                  StoreSet ImageUrl n (JStr '''')]\<rparr>)
   \<and> (\<forall>page. http_get env (og_request env (repo p)) = Inr page
          \<and> cheerio_og_image env page = Inr None \<and> parentRepo p = None
          \<and> store_error env (OpSet ImageUrl n) = None \<longrightarrow>
        fetchOGImage env p n s =
          s\<lparr>tbl := (tbl s)((ImageUrl, n) \<mapsto> JUndefined),
            events := events s @ [HttpGet (og_request env (repo p)),
                                  StoreSet ImageUrl n JUndefined]\<rparr>)"
proof -
  have time_rejected: "\<forall>e. http_get env (time_request env n) = Inl e \<longrightarrow>
      tbl (fetchUpdatedTime env n s) = tbl s
      \<and> aggregated (fetchUpdatedTime env n s) = aggregated s"
    by (simp add: fetchUpdatedTime_rejected)
  have unity_rejected: "\<forall>e. http_get env (unity_request env n) = Inl e \<longrightarrow>
      tbl (fetchUnityVersion env n s) = tbl s
      \<and> aggregated (fetchUnityVersion env n s) = aggregated s"
    by (simp add: fetchUnityVersion_rejected)
  have unity_misshapen: "\<forall>d e. http_get env (unity_request env n) = Inr d \<and> unity_of d = Inl e \<longrightarrow>
      tbl (fetchUnityVersion env n s) = tbl s
      \<and> aggregated (fetchUnityVersion env n s) = aggregated s"
    by (simp add: fetchUnityVersion_misshapen)
  have unity_undeclared: "\<forall>d v. http_get env (unity_request env n) = Inr d \<and> unity_of d = Inr v
        \<and> \<not> truthy v \<longrightarrow>
      fetchUnityVersion env n s = s\<lparr>events := events s @ [HttpGet (unity_request env n)]\<rparr>"
    by (simp add: fetchUnityVersion_undeclared)
  have stars_rejected: "\<forall>e. http_get env (stars_request env r) = Inl e \<longrightarrow>
      tbl (fetchStars env r n s) = tbl s
      \<and> aggregated (fetchStars env r n s) = aggregated s"
    by (simp add: fetchStars_rejected)
  have stars_misshapen: "\<forall>d e. http_get env (stars_request env r) = Inr d \<and> stars_of d = Inl e \<longrightarrow>
      tbl (fetchStars env r n s) = tbl s
      \<and> aggregated (fetchStars env r n s) = aggregated s"
    by (simp add: fetchStars_misshapen)
  have readme_rejected: "\<forall>e. http_get env (readme_request env r) = Inl e \<longrightarrow>
      tbl (fetchReadme env r n s) = tbl s
      \<and> aggregated (fetchReadme env r n s) = aggregated s"
    by (simp add: fetchReadme_rejected)
  have stars_zeroed: "\<forall>kvs. http_get env (stars_request env r) = Inr (JObj kvs)
        \<and> map_of kvs ''stargazers_count'' = None \<and> map_of kvs ''parent'' = None
        \<and> store_error env (OpSet Stars n) = None \<longrightarrow>
      fetchStars env r n s =
        s\<lparr>tbl := (tbl s)((Stars, n) \<mapsto> JNum 0),
          events := events s @ [HttpGet (stars_request env r), StoreSet Stars n (JNum 0)]\<rparr>"
    by (simp add: fetchStars_received stars_of_nothing)
  have time_zeroed: "\<forall>d stamp. http_get env (time_request env n) = Inr d \<and> time_stamp d = Inr stamp
        \<and> \<not> truthy stamp \<and> store_error env (OpSet UpdatedTime n) = None \<longrightarrow>
      fetchUpdatedTime env n s =
        s\<lparr>tbl := (tbl s)((UpdatedTime, n) \<mapsto> JNum 0),
          events := events s @ [HttpGet (time_request env n), StoreSet UpdatedTime n (JNum 0)]\<rparr>"
    by (simp add: fetchUpdatedTime_received js_or_def date_getTime_def)
  have time_garbled: "\<forall>d x. http_get env (time_request env n) = Inr d \<and> time_stamp d = Inr (JStr x)
        \<and> x \<noteq> [] \<and> date_parse env x = None
        \<and> store_error env (OpSet UpdatedTime n) = None \<longrightarrow>
      fetchUpdatedTime env n s =
        s\<lparr>tbl := (tbl s)((UpdatedTime, n) \<mapsto> JNaN),
          events := events s @ [HttpGet (time_request env n), StoreSet UpdatedTime n JNaN]\<rparr>"
    by (simp add: fetchUpdatedTime_received js_or_def date_getTime_def)
  have readme_any: "\<forall>body. http_get env (readme_request env r) = Inr body
        \<and> store_error env (OpSet Readme n) = None \<longrightarrow>
      fetchReadme env r n s =
        s\<lparr>tbl := (tbl s)((Readme, n) \<mapsto> body),
          events := events s @ [HttpGet (readme_request env r), StoreSet Readme n body]\<rparr>"
    by (simp add: fetchReadme_received)
  have image_blanked: "\<forall>e. http_get env (og_request env (repo p)) = Inl e \<and> parentRepo p = None
        \<and> store_error env (OpSet ImageUrl n) = None \<longrightarrow>
      fetchOGImage env p n s =
        s\<lparr>tbl := (tbl s)((ImageUrl, n) \<mapsto> JStr ''''),
          events := events s @ [HttpGet (og_request env (repo p)), ConsoleError e,
                                StoreSet ImageUrl n (JStr '''')]\<rparr>"
    by (simp add: fetchOGImage_rejected)
  have image_untagged: "\<forall>page. http_get env (og_request env (repo p)) = Inr page
        \<and> cheerio_og_image env page = Inr None \<and> parentRepo p = None
        \<and> store_error env (OpSet ImageUrl n) = None \<longrightarrow>
      fetchOGImage env p n s =
        s\<lparr>tbl := (tbl s)((ImageUrl, n) \<mapsto> JUndefined),
          events := events s @ [HttpGet (og_request env (repo p)),
                                StoreSet ImageUrl n JUndefined]\<rparr>"
    by (simp add: fetchOGImage_no_tag)
  from time_rejected unity_rejected unity_misshapen unity_undeclared stars_rejected
    stars_misshapen readme_rejected stars_zeroed time_zeroed time_garbled readme_any
    image_blanked image_untagged
  show ?thesis by (intro conjI)
qed

theorem failed_fetch_keeps_store_witness:
  "tbl (fetchUpdatedTime offline ''com.foo.bar'' seeded_world) = tbl seeded_world
   \<and> tbl (fetchUnityVersion offline ''com.foo.bar'' seeded_world) = tbl seeded_world
   \<and> tbl (fetchUnityVersion (answering JNull) ''com.foo.bar'' seeded_world) = tbl seeded_world
   \<and> tbl (fetchUnityVersion (answering plain_release) ''com.foo.bar'' seeded_world) = tbl seeded_world
   \<and> tbl (fetchStars offline ''foo/bar'' ''com.foo.bar'' seeded_world) = tbl seeded_world
   \<and> tbl (fetchStars (answering JNull) ''foo/bar'' ''com.foo.bar'' seeded_world) = tbl seeded_world
   \<and> tbl (fetchReadme offline ''foo/bar'' ''com.foo.bar'' seeded_world) = tbl seeded_world
   \<and> tbl (fetchStars (answering (JObj [])) ''foo/bar'' ''com.foo.bar'' starred_world)
        (Stars, ''com.foo.bar'') = Some (JNum 0)
   \<and> tbl (fetchUpdatedTime (answering (JObj [])) ''com.foo.bar'' seeded_world)
        (UpdatedTime, ''com.foo.bar'') = Some (JNum 0)
   \<and> tbl (fetchUpdatedTime (answering odd_stamp) ''com.foo.bar'' seeded_world)
        (UpdatedTime, ''com.foo.bar'') = Some JNaN
   \<and> tbl (fetchReadme (answering JNull) ''foo/bar'' ''com.foo.bar'' seeded_world)
        (Readme, ''com.foo.bar'') = Some JNull
   \<and> tbl (fetchOGImage offline foo_bar ''com.foo.bar'' seeded_world) (ImageUrl, ''com.foo.bar'')
       = Some (JStr '''')
   \<and> tbl (fetchOGImage pages foo_bar ''com.foo.bar'' seeded_world) (ImageUrl, ''com.foo.bar'')
       = Some JUndefined"
proof -
  have gone: "http_get offline rq = Inl (HttpError (Some 404))" for rq
    by (simp add: example_defs)
  have received: "http_get (answering doc) rq = Inr doc" for doc rq
    by (simp add: example_defs)
  have accepts: "store_error (answering doc) op = None" "store_error offline op = None"
    "store_error pages op = None" for doc op
    by (simp_all add: pages_def example_defs)
  have null: "unity_of JNull = Inl TypeError" "stars_of JNull = Inl TypeError"
    by (simp_all add: unity_of_def stars_of_def and_then_def)
  have undeclared: "unity_of plain_release = Inr JUndefined"
    by (simp add: plain_release_def unity_of_def and_then_def)
  have no_stamp: "time_stamp (JObj []) = Inr JUndefined"
    by (simp add: time_stamp_def Let_def and_then_def js_or_def)
  have odd: "time_stamp odd_stamp = Inr (JStr ''yesterday'')"
    by (simp add: odd_stamp_def time_stamp_def Let_def and_then_def js_or_def)
  have no_parser: "date_parse (answering doc) x = None" for doc x
    by (simp add: example_defs)
  have bare: "parentRepo foo_bar = None"
    by (simp add: example_defs)
  have untagged: "http_get pages (og_request pages (repo foo_bar)) = Inr (JStr ''https://github.com/foo/bar'')"
    "cheerio_og_image pages (JStr ''https://github.com/foo/bar'') = Inr None"
    by (simp_all add: pages_def og_request_def example_defs)
  note A = failed_fetch_keeps_store [of offline "''com.foo.bar''" seeded_world "''foo/bar''" foo_bar]
  note B = failed_fetch_keeps_store [of "answering JNull" "''com.foo.bar''" seeded_world "''foo/bar''" foo_bar]
  note C = failed_fetch_keeps_store [of "answering plain_release" "''com.foo.bar''" seeded_world "''foo/bar''" foo_bar]
  note D = failed_fetch_keeps_store [of "answering (JObj [])" "''com.foo.bar''" starred_world "''foo/bar''" foo_bar]
  note E = failed_fetch_keeps_store [of "answering (JObj [])" "''com.foo.bar''" seeded_world "''foo/bar''" foo_bar]
  note F = failed_fetch_keeps_store [of "answering odd_stamp" "''com.foo.bar''" seeded_world "''foo/bar''" foo_bar]
  note G = failed_fetch_keeps_store [of pages "''com.foo.bar''" seeded_world "''foo/bar''" foo_bar]
  have 1: "tbl (fetchUpdatedTime offline ''com.foo.bar'' seeded_world) = tbl seeded_world"
    using A [THEN conjunct1, rule_format] gone by simp
  have 2: "tbl (fetchUnityVersion offline ''com.foo.bar'' seeded_world) = tbl seeded_world"
    using A [THEN conjunct2, THEN conjunct1, rule_format] gone by simp
  have 3: "tbl (fetchUnityVersion (answering JNull) ''com.foo.bar'' seeded_world) = tbl seeded_world"
    using B [THEN conjunct2, THEN conjunct2, THEN conjunct1, rule_format] received null by simp
  have "fetchUnityVersion (answering plain_release) ''com.foo.bar'' seeded_world
      = seeded_world\<lparr>events := events seeded_world
          @ [HttpGet (unity_request (answering plain_release) ''com.foo.bar'')]\<rparr>"
    using C [THEN conjunct2, THEN conjunct2, THEN conjunct2, THEN conjunct1, rule_format] received undeclared by simp
  then have 4: "tbl (fetchUnityVersion (answering plain_release) ''com.foo.bar'' seeded_world)
      = tbl seeded_world"
    by simp
  have 5: "tbl (fetchStars offline ''foo/bar'' ''com.foo.bar'' seeded_world) = tbl seeded_world"
    using A [THEN conjunct2, THEN conjunct2, THEN conjunct2, THEN conjunct2, THEN conjunct1, rule_format] gone by simp
  have 6: "tbl (fetchStars (answering JNull) ''foo/bar'' ''com.foo.bar'' seeded_world) = tbl seeded_world"
    using B [THEN conjunct2, THEN conjunct2, THEN conjunct2, THEN conjunct2, THEN conjunct2, THEN conjunct1, rule_format] received null by simp
  have 7: "tbl (fetchReadme offline ''foo/bar'' ''com.foo.bar'' seeded_world) = tbl seeded_world"
    using A [THEN conjunct2, THEN conjunct2, THEN conjunct2, THEN conjunct2, THEN conjunct2, THEN conjunct2, THEN conjunct1, rule_format] gone by simp
  have "fetchStars (answering (JObj [])) ''foo/bar'' ''com.foo.bar'' starred_world
      = starred_world\<lparr>tbl := (tbl starred_world)((Stars, ''com.foo.bar'') \<mapsto> JNum 0),
          events := events starred_world
            @ [HttpGet (stars_request (answering (JObj [])) ''foo/bar''),
               StoreSet Stars ''com.foo.bar'' (JNum 0)]\<rparr>"
    using D [THEN conjunct2, THEN conjunct2, THEN conjunct2, THEN conjunct2, THEN conjunct2, THEN conjunct2, THEN conjunct2, THEN conjunct1, rule_format] received accepts by simp
  then have 8: "tbl (fetchStars (answering (JObj [])) ''foo/bar'' ''com.foo.bar'' starred_world)
      (Stars, ''com.foo.bar'') = Some (JNum 0)"
    by simp
  have "fetchUpdatedTime (answering (JObj [])) ''com.foo.bar'' seeded_world
      = seeded_world\<lparr>tbl := (tbl seeded_world)((UpdatedTime, ''com.foo.bar'') \<mapsto> JNum 0),
          events := events seeded_world
            @ [HttpGet (time_request (answering (JObj [])) ''com.foo.bar''),
               StoreSet UpdatedTime ''com.foo.bar'' (JNum 0)]\<rparr>"
    using E [THEN conjunct2, THEN conjunct2, THEN conjunct2, THEN conjunct2, THEN conjunct2, THEN conjunct2, THEN conjunct2, THEN conjunct2, THEN conjunct1, rule_format] received no_stamp accepts by simp
  then have 9: "tbl (fetchUpdatedTime (answering (JObj [])) ''com.foo.bar'' seeded_world)
      (UpdatedTime, ''com.foo.bar'') = Some (JNum 0)"
    by simp
  have "fetchUpdatedTime (answering odd_stamp) ''com.foo.bar'' seeded_world
      = seeded_world\<lparr>tbl := (tbl seeded_world)((UpdatedTime, ''com.foo.bar'') \<mapsto> JNaN),
          events := events seeded_world
            @ [HttpGet (time_request (answering odd_stamp) ''com.foo.bar''),
               StoreSet UpdatedTime ''com.foo.bar'' JNaN]\<rparr>"
    using F [THEN conjunct2, THEN conjunct2, THEN conjunct2, THEN conjunct2, THEN conjunct2, THEN conjunct2, THEN conjunct2, THEN conjunct2, THEN conjunct2, THEN conjunct1, rule_format] received odd no_parser accepts by simp
  then have 10: "tbl (fetchUpdatedTime (answering odd_stamp) ''com.foo.bar'' seeded_world)
      (UpdatedTime, ''com.foo.bar'') = Some JNaN"
    by simp
  have "fetchReadme (answering JNull) ''foo/bar'' ''com.foo.bar'' seeded_world
      = seeded_world\<lparr>tbl := (tbl seeded_world)((Readme, ''com.foo.bar'') \<mapsto> JNull),
          events := events seeded_world
            @ [HttpGet (readme_request (answering JNull) ''foo/bar''),
               StoreSet Readme ''com.foo.bar'' JNull]\<rparr>"
    using B [THEN conjunct2, THEN conjunct2, THEN conjunct2, THEN conjunct2, THEN conjunct2, THEN conjunct2, THEN conjunct2, THEN conjunct2, THEN conjunct2, THEN conjunct2, THEN conjunct1, rule_format] received accepts by simp
  then have 11: "tbl (fetchReadme (answering JNull) ''foo/bar'' ''com.foo.bar'' seeded_world)
      (Readme, ''com.foo.bar'') = Some JNull"
    by simp
  have "fetchOGImage offline foo_bar ''com.foo.bar'' seeded_world
      = seeded_world\<lparr>tbl := (tbl seeded_world)((ImageUrl, ''com.foo.bar'') \<mapsto> JStr ''''),
          events := events seeded_world
            @ [HttpGet (og_request offline (repo foo_bar)), ConsoleError (HttpError (Some 404)),
               StoreSet ImageUrl ''com.foo.bar'' (JStr '''')]\<rparr>"
    using A [THEN conjunct2, THEN conjunct2, THEN conjunct2, THEN conjunct2, THEN conjunct2, THEN conjunct2, THEN conjunct2, THEN conjunct2, THEN conjunct2, THEN conjunct2, THEN conjunct2, THEN conjunct1, rule_format] gone bare accepts by simp
  then have 12: "tbl (fetchOGImage offline foo_bar ''com.foo.bar'' seeded_world)
      (ImageUrl, ''com.foo.bar'') = Some (JStr '''')"
    by simp
  have "fetchOGImage pages foo_bar ''com.foo.bar'' seeded_world
      = seeded_world\<lparr>tbl := (tbl seeded_world)((ImageUrl, ''com.foo.bar'') \<mapsto> JUndefined),
          events := events seeded_world
            @ [HttpGet (og_request pages (repo foo_bar)), StoreSet ImageUrl ''com.foo.bar'' JUndefined]\<rparr>"
    using G [THEN conjunct2, THEN conjunct2, THEN conjunct2, THEN conjunct2, THEN conjunct2, THEN conjunct2, THEN conjunct2, THEN conjunct2, THEN conjunct2, THEN conjunct2, THEN conjunct2, THEN conjunct2, rule_format] untagged bare accepts by simp
  then have 13: "tbl (fetchOGImage pages foo_bar ''com.foo.bar'' seeded_world)
      (ImageUrl, ''com.foo.bar'') = Some JUndefined"
    by simp
  from 1 2 3 4 5 6 7 8 9 10 11 12 13 show ?thesis by (intro conjI)
qed

theorem failed_fetch_counterexample:
  "http_get offline (og_request offline (repo foo_bar)) = Inl (HttpError (Some 404))
   \<and> tbl seeded_world (ImageUrl, ''com.foo.bar'') = Some (JStr ''https://example.org/card.png'')
   \<and> tbl (fetchOGImage offline foo_bar ''com.foo.bar'' seeded_world) (ImageUrl, ''com.foo.bar'')
       = Some (JStr '''')
   \<and> http_get (answering (JObj [])) (stars_request (answering (JObj [])) ''foo/bar'') = Inr (JObj [])
   \<and> tbl starred_world (Stars, ''com.foo.bar'') = Some (JNum 42)
   \<and> tbl (fetchStars (answering (JObj [])) ''foo/bar'' ''com.foo.bar'' starred_world)
        (Stars, ''com.foo.bar'') = Some (JNum 0)
   \<and> filter is_log (events (fetchStars (answering (JObj [])) ''foo/bar'' ''com.foo.bar'' starred_world))
       = []
   \<and> http_get (answering (JObj [])) (time_request (answering (JObj [])) ''com.foo.bar'') = Inr (JObj [])
   \<and> tbl seeded_world (UpdatedTime, ''com.foo.bar'') = Some (JNum 1600000000000)
   \<and> tbl (fetchUpdatedTime (answering (JObj [])) ''com.foo.bar'' seeded_world)
        (UpdatedTime, ''com.foo.bar'') = Some (JNum 0)
   \<and> filter is_log (events (fetchUpdatedTime (answering (JObj [])) ''com.foo.bar'' seeded_world))
       = []"
  by (simp add: starred_world_def example_defs fetchOGImage_def fetchOGImageForRepo_def
        fetchStars_def stars_of_def fetchUpdatedTime_def time_of_def time_stamp_def Let_def
        and_then_def js_or_def js_add_def date_getTime_def store_set_def image_value_def
        no_image_def emit_def)

subsection \<open>Updated time and cover image\<close>

lemma date_getTime_zero: "date_getTime env (JNum 0) = JNum 0"
  by (simp add: date_getTime_def)

lemma date_getTime_unparseable:
  "date_parse env x = None \<Longrightarrow> date_getTime env (JStr x) = JNaN"
  by (simp add: date_getTime_def)

text \<open>
  Claim C4, as amended. For every package whose registry response is received, looking up
  the latest version's publish stamp never raises, and with a store that accepts the
  write the updated-time fetcher always writes \<open>updatedTime\<close> and logs nothing: it writes
  0 when the stamp is missing (or otherwise falsy) and NaN when the stamp is a string
  that is not a date, in both cases over whatever was stored before.
\<close>

theorem updated_time_written_without_stamp:
  assumes "http_get env (time_request env n) = Inr d"
    and "time_stamp d = Inr stamp"
    and "store_error env (OpSet UpdatedTime n) = None"
  shows "(\<exists>v. time_stamp d = Inr v)
       \<and> fetchUpdatedTime env n s =
           s\<lparr>tbl := (tbl s)((UpdatedTime, n) \<mapsto> date_getTime env (js_or stamp (JNum 0))),
             events := events s @ [HttpGet (time_request env n),
               StoreSet UpdatedTime n (date_getTime env (js_or stamp (JNum 0)))]\<rparr>
       \<and> (\<not> truthy stamp \<longrightarrow> date_getTime env (js_or stamp (JNum 0)) = JNum 0)
       \<and> (\<forall>x. stamp = JStr x \<and> x \<noteq> [] \<and> date_parse env x = None \<longrightarrow>
            date_getTime env (js_or stamp (JNum 0)) = JNaN)"
proof -
  have total: "\<exists>v. time_stamp d = Inr v"
    by (rule time_stamp_total)
  have written: "fetchUpdatedTime env n s =
      s\<lparr>tbl := (tbl s)((UpdatedTime, n) \<mapsto> date_getTime env (js_or stamp (JNum 0))),
        events := events s @ [HttpGet (time_request env n),
          StoreSet UpdatedTime n (date_getTime env (js_or stamp (JNum 0)))]\<rparr>"
    using assms by (rule fetchUpdatedTime_received)
  have missing: "\<not> truthy stamp \<longrightarrow> date_getTime env (js_or stamp (JNum 0)) = JNum 0"
    by (simp add: js_or_def date_getTime_zero)
  have garbled: "\<forall>x. stamp = JStr x \<and> x \<noteq> [] \<and> date_parse env x = None \<longrightarrow>
      date_getTime env (js_or stamp (JNum 0)) = JNaN"
    by (simp add: js_or_def date_getTime_unparseable)
  from total written missing garbled show ?thesis by blast
qed

theorem updated_time_written_without_stamp_witness:
  "fetchUpdatedTime (answering (JObj [])) ''com.foo.bar'' seeded_world =
     seeded_world\<lparr>tbl := (tbl seeded_world)((UpdatedTime, ''com.foo.bar'') \<mapsto> JNum 0),
       events := [HttpGet (time_request (answering (JObj [])) ''com.foo.bar''),
                  StoreSet UpdatedTime ''com.foo.bar'' (JNum 0)]\<rparr>
   \<and> fetchUpdatedTime (answering odd_stamp) ''com.foo.bar'' seeded_world =
       seeded_world\<lparr>tbl := (tbl seeded_world)((UpdatedTime, ''com.foo.bar'') \<mapsto> JNaN),
         events := [HttpGet (time_request (answering odd_stamp) ''com.foo.bar''),
                    StoreSet UpdatedTime ''com.foo.bar'' JNaN]\<rparr>"
proof -
  have received: "http_get (answering doc) rq = Inr doc
      \<and> store_error (answering doc) (OpSet UpdatedTime ''com.foo.bar'') = None
      \<and> date_parse (answering doc) x = None" for doc rq x
    by (simp add: example_defs)
  have no_stamp: "time_stamp (JObj []) = Inr JUndefined \<and> \<not> truthy JUndefined"
    by (simp add: time_stamp_def Let_def and_then_def js_or_def)
  have odd: "time_stamp odd_stamp = Inr (JStr ''yesterday'') \<and> ''yesterday'' \<noteq> []"
    by (simp add: odd_stamp_def time_stamp_def Let_def and_then_def js_or_def)
  have quiet: "events seeded_world = []"
    by (simp add: example_defs)
  note A = updated_time_written_without_stamp [of "answering (JObj [])" "''com.foo.bar''" "JObj []"
      JUndefined seeded_world]
  note B = updated_time_written_without_stamp [of "answering odd_stamp" "''com.foo.bar''" odd_stamp
      "JStr ''yesterday''" seeded_world]
  have a: "fetchUpdatedTime (answering (JObj [])) ''com.foo.bar'' seeded_world =
      seeded_world\<lparr>tbl := (tbl seeded_world)((UpdatedTime, ''com.foo.bar'') \<mapsto> JNum 0),
        events := events seeded_world @ [HttpGet (time_request (answering (JObj [])) ''com.foo.bar''),
                   StoreSet UpdatedTime ''com.foo.bar'' (JNum 0)]\<rparr>"
    using A received no_stamp by simp
  have b: "fetchUpdatedTime (answering odd_stamp) ''com.foo.bar'' seeded_world =
      seeded_world\<lparr>tbl := (tbl seeded_world)((UpdatedTime, ''com.foo.bar'') \<mapsto> JNaN),
        events := events seeded_world @ [HttpGet (time_request (answering odd_stamp) ''com.foo.bar''),
                   StoreSet UpdatedTime ''com.foo.bar'' JNaN]\<rparr>"
    using B received odd by simp
  show ?thesis
    unfolding a b by (simp add: seeded_world_def)
qed

theorem updated_time_counterexample:
  "http_get (answering (JObj [])) (time_request (answering (JObj [])) ''com.foo.bar'') = Inr (JObj [])
   \<and> time_stamp (JObj []) = Inr JUndefined
   \<and> tbl seeded_world (UpdatedTime, ''com.foo.bar'') = Some (JNum 1600000000000)
   \<and> tbl (fetchUpdatedTime (answering (JObj [])) ''com.foo.bar'' seeded_world)
        (UpdatedTime, ''com.foo.bar'') = Some (JNum 0)
   \<and> filter is_log (events (fetchUpdatedTime (answering (JObj [])) ''com.foo.bar'' seeded_world)) = []"
  by (simp add: example_defs fetchUpdatedTime_def time_of_def time_stamp_def Let_def and_then_def
        js_or_def date_getTime_def store_set_def emit_def)

lemma og_image_for_not_avatar: "\<not> is_avatar (og_image_for env r)"
  by (simp add: og_image_for_def is_avatar_def split: sum.split)

lemma og_final_not_avatar: "\<not> is_avatar (og_final env p)"
  by (simp add: og_final_def og_image_for_not_avatar split: option.split)

lemma fetchOGImage_events:
  "store_error env (OpSet ImageUrl n) = None \<Longrightarrow>
   events (fetchOGImage env p n s)
     = events (og_world env p s) @ [StoreSet ImageUrl n (image_value (og_final env p))]"
  by (simp add: fetchOGImage_unfold store_set_ok)

lemma fetchOGImage_tbl:
  "store_error env (OpSet ImageUrl n) = None \<Longrightarrow>
   tbl (fetchOGImage env p n s) (ImageUrl, n) = Some (image_value (og_final env p))"
  by (simp add: fetchOGImage_unfold store_set_ok)

text \<open>
  Claim C5. An extracted social-preview URL that matches the avatar pattern is treated as
  empty, so the value the cover-image fetcher ends with never matches it. When the
  primary repo yields nothing and the descriptor names a parent, the parent's page is
  requested and its result is the final one. With a store that accepts the write, the
  final result is written whatever it is, the empty string included, as the fetcher's
  last action.
\<close>

theorem cover_image_fallback:
  "(\<forall>page u. http_get env (og_request env r) = Inr page
        \<and> cheerio_og_image env page = Inr (Some u) \<and> is_avatar (Some u) \<longrightarrow>
      fst (fetchOGImageForRepo env r s) = Some '''')
   \<and> \<not> is_avatar (og_final env p)
   \<and> (\<forall>parent. parentRepo p = Some parent \<and> parent \<noteq> []
          \<and> no_image (fst (fetchOGImageForRepo env (repo p) s)) \<longrightarrow>
        HttpGet (og_request env parent) \<in> set (events (fetchOGImage env p n s))
        \<and> og_final env p
            = fst (fetchOGImageForRepo env parent (snd (fetchOGImageForRepo env (repo p) s))))
   \<and> (store_error env (OpSet ImageUrl n) = None \<longrightarrow>
        tbl (fetchOGImage env p n s) (ImageUrl, n) = Some (image_value (og_final env p))
        \<and> last (events (fetchOGImage env p n s))
            = StoreSet ImageUrl n (image_value (og_final env p)))"
proof -
  have discard: "\<forall>page u. http_get env (og_request env r) = Inr page
        \<and> cheerio_og_image env page = Inr (Some u) \<and> is_avatar (Some u) \<longrightarrow>
      fst (fetchOGImageForRepo env r s) = Some ''''"
    by (simp add: fst_fetchOGImageForRepo og_image_for_def)
  have parent: "\<forall>parent. parentRepo p = Some parent \<and> parent \<noteq> []
          \<and> no_image (fst (fetchOGImageForRepo env (repo p) s)) \<longrightarrow>
        HttpGet (og_request env parent) \<in> set (events (fetchOGImage env p n s))
        \<and> og_final env p
            = fst (fetchOGImageForRepo env parent (snd (fetchOGImageForRepo env (repo p) s)))"
  proof (intro allI impI)
    fix parent
    assume h: "parentRepo p = Some parent \<and> parent \<noteq> []
        \<and> no_image (fst (fetchOGImageForRepo env (repo p) s))"
    then have w: "og_world env p s
        = snd (fetchOGImageForRepo env parent (snd (fetchOGImageForRepo env (repo p) s)))"
      by (simp add: og_world_def fst_fetchOGImageForRepo)
    have "HttpGet (og_request env parent) \<in> set (events (og_world env p s))"
      unfolding w by (rule request_fetchOGImageForRepo)
    then have "HttpGet (og_request env parent) \<in> set (events (fetchOGImage env p n s))"
      using events_fetchOGImage by blast
    moreover from h have "og_final env p
        = fst (fetchOGImageForRepo env parent (snd (fetchOGImageForRepo env (repo p) s)))"
      by (simp add: og_final_def fst_fetchOGImageForRepo)
    ultimately show "HttpGet (og_request env parent) \<in> set (events (fetchOGImage env p n s))
        \<and> og_final env p
            = fst (fetchOGImageForRepo env parent (snd (fetchOGImageForRepo env (repo p) s)))"
      by blast
  qed
  have written: "store_error env (OpSet ImageUrl n) = None \<longrightarrow>
        tbl (fetchOGImage env p n s) (ImageUrl, n) = Some (image_value (og_final env p))
        \<and> last (events (fetchOGImage env p n s))
            = StoreSet ImageUrl n (image_value (og_final env p))"
    by (simp add: fetchOGImage_tbl fetchOGImage_events)
  from discard og_final_not_avatar [of env p] parent written show ?thesis by blast
qed

subsection \<open>Cover image, continued\<close>

theorem cover_image_fallback_witness:
  "fst (fetchOGImageForRepo pages ''me/fork'' empty_world) = Some ''''
   \<and> HttpGet (og_request pages ''up/stream'')
        \<in> set (events (fetchOGImage pages forked ''com.me.fork'' empty_world))
   \<and> tbl (fetchOGImage pages forked ''com.me.fork'' empty_world) (ImageUrl, ''com.me.fork'')
       = Some (JStr ''https://repository-images.githubusercontent.com/1/card.png'')
   \<and> tbl (fetchOGImage offline foo_bar ''com.foo.bar'' seeded_world) (ImageUrl, ''com.foo.bar'')
       = Some (JStr '''')"
proof -
  let ?avatar = "''https://avatars.githubusercontent.com/u/1?s=400''"
  have own: "http_get pages (og_request pages ''me/fork'') = Inr (JStr ''https://github.com/me/fork'')
      \<and> cheerio_og_image pages (JStr ''https://github.com/me/fork'') = Inr (Some ?avatar)
      \<and> is_avatar (Some ?avatar)"
    by (simp add: pages_def example_defs og_request_def is_avatar_def)
  have fork: "parentRepo forked = Some ''up/stream'' \<and> ''up/stream'' \<noteq> [] \<and> repo forked = ''me/fork''"
    by (simp add: forked_def)
  have accepts: "store_error pages (OpSet ImageUrl ''com.me.fork'') = None
      \<and> store_error offline (OpSet ImageUrl ''com.foo.bar'') = None"
    by (simp add: pages_def example_defs)
  have card: "og_final pages forked
      = Some ''https://repository-images.githubusercontent.com/1/card.png''"
    by (simp add: pages_def forked_def example_defs og_final_def og_image_for_def og_request_def
          is_avatar_def no_image_def)
  have blank: "og_final offline foo_bar = Some ''''"
    by (simp add: example_defs og_final_def og_image_for_def)
  note A = cover_image_fallback [of pages "''me/fork''" empty_world forked "''com.me.fork''"]
  note B = cover_image_fallback [of offline "''foo/bar''" seeded_world foo_bar "''com.foo.bar''"]
  have 1: "fst (fetchOGImageForRepo pages ''me/fork'' empty_world) = Some ''''"
    using A own by blast
  then have "no_image (fst (fetchOGImageForRepo pages (repo forked) empty_world))"
    using fork by (simp add: no_image_def)
  with A fork have 2: "HttpGet (og_request pages ''up/stream'')
      \<in> set (events (fetchOGImage pages forked ''com.me.fork'' empty_world))"
    by blast
  from A accepts have "tbl (fetchOGImage pages forked ''com.me.fork'' empty_world)
      (ImageUrl, ''com.me.fork'') = Some (image_value (og_final pages forked))"
    by simp
  then have 3: "tbl (fetchOGImage pages forked ''com.me.fork'' empty_world)
      (ImageUrl, ''com.me.fork'')
      = Some (JStr ''https://repository-images.githubusercontent.com/1/card.png'')"
    by (simp add: card image_value_def)
  from B accepts have "tbl (fetchOGImage offline foo_bar ''com.foo.bar'' seeded_world)
      (ImageUrl, ''com.foo.bar'') = Some (image_value (og_final offline foo_bar))"
    by simp
  then have 4: "tbl (fetchOGImage offline foo_bar ''com.foo.bar'' seeded_world)
      (ImageUrl, ''com.foo.bar'') = Some (JStr '''')"
    by (simp add: blank image_value_def)
  from 1 2 3 4 show ?thesis by blast
qed

text \<open>Facts next to the claims: the runtime-version fetcher only ever stores a truthy
  value; an enrichment run that returns has attempted every requested identifier; and a
  descriptor that cannot be loaded ends the loop before the packages after it.\<close>

lemma fetchUnityVersion_stores_truthy:
  assumes "\<forall>k v. tbl s (Unity, k) = Some v \<longrightarrow> truthy v"
  shows "\<forall>k v. tbl (fetchUnityVersion env n s) (Unity, k) = Some v \<longrightarrow> truthy v"
  using assms
  by (auto simp: fetchUnityVersion_def Let_def unity_catch_def store_set_def
        split: sum.splits option.splits if_splits)

lemma fetch_loop_returned:
  "fst (fetch_loop env names s) = Inr u \<Longrightarrow>
   snd (fetch_loop env names s) = foldl (\<lambda>w n. attempt env n w) s names"
proof (induction names arbitrary: s)
  case Nil
  show ?case by simp
next
  case (Cons n rest)
  show ?case
  proof (cases "packageExists env n")
    case False
    with Cons show ?thesis by (simp add: attempt_def)
  next
    case True
    with Cons.prems obtain p where p: "loadPackage env n = Inr (Some p)"
      by (auto simp: Let_def split: sum.splits option.splits)
    with True Cons.prems
    have "fst (fetch_loop env rest (run_fetchers env p n s)) = Inr u"
      by (simp add: run_fetchers_def)
    from Cons.IH [OF this] True p show ?thesis
      by (simp add: attempt_def run_fetchers_def)
  qed
qed

lemma fetch_loop_stops_at_load_failure:
  "packageExists env n \<Longrightarrow> loadPackage env n = Inl e \<Longrightarrow>
   fetch_loop env (n # rest) s = (Inl e, s)"
  by simp

end
